theory Spec2Isabelle
  imports Complex_Main "HOL-Library.Word"
begin

section \<open>The JavaScript values the program handles\<close>

subsection \<open>Strings\<close>

text \<open>
  A JavaScript string is a sequence of 16-bit code units. \<open>js\<close> writes the program's
  string literals (all ASCII) as such sequences.
\<close>

type_synonym jsstring = "16 word list"

definition js :: "string \<Rightarrow> jsstring" where
  "js s = map of_char s"

text \<open>
  \<^verbatim>\<open>String.prototype.trim\<close>: removes the leading and trailing WhiteSpace and
  LineTerminator code points of ECMAScript (TAB, LF, VT, FF, CR, SP, NBSP, U+1680,
  U+2000 to U+200A, LS, PS, U+202F, U+205F, U+3000, ZWNBSP).
\<close>

definition isWhiteSpace :: "16 word \<Rightarrow> bool" where
  "isWhiteSpace c \<longleftrightarrow>
     c \<in> set [0x9, 0xA, 0xB, 0xC, 0xD, 0x20, 0xA0, 0x1680, 0x2028, 0x2029, 0x202F,
               0x205F, 0x3000, 0xFEFF]
     \<or> (0x2000 \<le> c \<and> c \<le> 0x200A)"

definition trim :: "jsstring \<Rightarrow> jsstring" where
  "trim s = rev (dropWhile isWhiteSpace (rev (dropWhile isWhiteSpace s)))"

text \<open>
  \<^verbatim>\<open>apiUrl.replace(/\/$/, '')\<close>: the pattern matches one slash at the very end of
  the string, which is removed.
\<close>

definition stripTrailingSlash :: "jsstring \<Rightarrow> jsstring" where
  "stripTrailingSlash s = (if s \<noteq> [] \<and> last s = 0x2F then butlast s else s)"

subsection \<open>The built-in errors\<close>

text \<open>
  The built-in functions the program calls throw \<^verbatim>\<open>TypeError\<close>, \<^verbatim>\<open>SyntaxError\<close>,
  \<^verbatim>\<open>URIError\<close> or \<^verbatim>\<open>RangeError\<close>. The text of their messages is chosen by the engine;
  the model keeps it symbolic. The limits of the engine's resources (stack, memory) are
  not part of the model.
\<close>

datatype builtin = TypeError | SyntaxError | URIError | RangeError

subsection \<open>encodeURIComponent\<close>

text \<open>
  ECMAScript's \<^verbatim>\<open>Encode\<close> with the unescaped set of \<^verbatim>\<open>encodeURIComponent\<close>: a code unit
  of the set is copied; any other code point is written as the percent-escaped octets of
  its UTF-8 encoding; an unpaired surrogate throws \<^verbatim>\<open>URIError\<close>.
\<close>

definition uriUnescaped :: "16 word \<Rightarrow> bool" where
  "uriUnescaped c \<longleftrightarrow>
     c \<in> set (js ''ABCDEFGHIJKLMNOPQRSTUVWXYZabcdefghijklmnopqrstuvwxyz0123456789-_.!~*'()'')"

definition isLeadSurrogate :: "16 word \<Rightarrow> bool" where
  "isLeadSurrogate c \<longleftrightarrow> 0xD800 \<le> c \<and> c \<le> 0xDBFF"

definition isTrailSurrogate :: "16 word \<Rightarrow> bool" where
  "isTrailSurrogate c \<longleftrightarrow> 0xDC00 \<le> c \<and> c \<le> 0xDFFF"

definition codePointOfPair :: "16 word \<Rightarrow> 16 word \<Rightarrow> nat" where
  "codePointOfPair hi lo = (unat hi - 0xD800) * 0x400 + (unat lo - 0xDC00) + 0x10000"

definition utf8Encode :: "nat \<Rightarrow> nat list" where
  "utf8Encode cp =
     (if cp < 0x80 then [cp]
      else if cp < 0x800 then [0xC0 + cp div 0x40, 0x80 + cp mod 0x40]
      else if cp < 0x10000 then
        [0xE0 + cp div 0x1000, 0x80 + (cp div 0x40) mod 0x40, 0x80 + cp mod 0x40]
      else
        [0xF0 + cp div 0x40000, 0x80 + (cp div 0x1000) mod 0x40,
         0x80 + (cp div 0x40) mod 0x40, 0x80 + cp mod 0x40])"

definition hexDigit :: "nat \<Rightarrow> 16 word" where
  "hexDigit n = js ''0123456789ABCDEF'' ! (n mod 16)"

definition percentEscape :: "nat \<Rightarrow> jsstring" where
  "percentEscape octet = [0x25, hexDigit (octet div 16), hexDigit octet]"

definition escapeCodePoint :: "nat \<Rightarrow> jsstring" where
  "escapeCodePoint cp = concat (map percentEscape (utf8Encode cp))"

fun encodeURIComponent :: "jsstring \<Rightarrow> builtin + jsstring" where
  "encodeURIComponent [] = Inr []"
| "encodeURIComponent (c # cs) =
     (if uriUnescaped c then map_sum id ((#) c) (encodeURIComponent cs)
      else if isTrailSurrogate c then Inl URIError
      else if isLeadSurrogate c then
        (case cs of
           [] \<Rightarrow> Inl URIError
         | d # ds \<Rightarrow>
             if isTrailSurrogate d
             then map_sum id ((@) (escapeCodePoint (codePointOfPair c d))) (encodeURIComponent ds)
             else Inl URIError)
      else map_sum id ((@) (escapeCodePoint (unat c))) (encodeURIComponent cs))"

text \<open>
  \<^verbatim>\<open>String.prototype.isWellFormed\<close>: the string has no unpaired surrogate.
\<close>

fun isWellFormed :: "jsstring \<Rightarrow> bool" where
  "isWellFormed [] = True"
| "isWellFormed (c # cs) =
     (if isTrailSurrogate c then False
      else if isLeadSurrogate c then
        (case cs of [] \<Rightarrow> False | d # ds \<Rightarrow> isTrailSurrogate d \<and> isWellFormed ds)
      else isWellFormed cs)"

subsection \<open>The query parameters of a URL\<close>

text \<open>
  \<^verbatim>\<open>new URL(u).searchParams\<close>, for an absolute URL \<open>u\<close> as a server receives it (the
  constructor does not throw on such a URL). Of the URL parser the model keeps the
  query: what stands after the first \<^verbatim>\<open>?\<close> and before the fragment. The query is then
  read by the \<^verbatim>\<open>application/x-www-form-urlencoded\<close> parser of the URL standard: the
  UTF-8 bytes are split at \<^verbatim>\<open>&\<close>, each non-empty piece at its first \<^verbatim>\<open>=\<close>; in name
  and value \<^verbatim>\<open>+\<close> becomes a space, percent escapes are replaced by their bytes, and
  the bytes are decoded as UTF-8.
\<close>

fun codePoints :: "jsstring \<Rightarrow> nat list" where
  "codePoints [] = []"
| "codePoints (c # cs) =
     (if isTrailSurrogate c then 0xFFFD # codePoints cs
      else if isLeadSurrogate c then
        (case cs of
           [] \<Rightarrow> [0xFFFD]
         | d # ds \<Rightarrow>
             if isTrailSurrogate d then codePointOfPair c d # codePoints ds
             else 0xFFFD # codePoints cs)
      else unat c # codePoints cs)"

definition utf8Bytes :: "jsstring \<Rightarrow> nat list" where
  "utf8Bytes s = concat (map utf8Encode (codePoints s))"

fun splitOn :: "'a \<Rightarrow> 'a list \<Rightarrow> 'a list list" where
  "splitOn sep [] = [[]]"
| "splitOn sep (x # xs) =
     (if x = sep then [] # splitOn sep xs
      else (case splitOn sep xs of [] \<Rightarrow> [[x]] | piece # pieces \<Rightarrow> (x # piece) # pieces))"

definition isHexDigit :: "nat \<Rightarrow> bool" where
  "isHexDigit b \<longleftrightarrow>
     (0x30 \<le> b \<and> b \<le> 0x39) \<or> (0x41 \<le> b \<and> b \<le> 0x46) \<or> (0x61 \<le> b \<and> b \<le> 0x66)"

definition hexValue :: "nat \<Rightarrow> nat" where
  "hexValue b = (if b \<le> 0x39 then b - 0x30 else if b \<le> 0x46 then b - 0x37 else b - 0x57)"

fun percentDecode :: "nat list \<Rightarrow> nat list" where
  "percentDecode [] = []"
| "percentDecode (b # bs) =
     (if b = 0x25 then
        (case bs of
           h1 # h2 # rest \<Rightarrow>
             if isHexDigit h1 \<and> isHexDigit h2
             then (16 * hexValue h1 + hexValue h2) # percentDecode rest
             else b # percentDecode bs
         | _ \<Rightarrow> b # percentDecode bs)
      else b # percentDecode bs)"

text \<open>
  The UTF-8 decoder of the Encoding standard, with U+FFFD for every malformed sequence.
  A lead byte gives a code point at once or the number of bytes needed, the bits read
  so far and the bounds of the next byte.
\<close>

definition utf8Lead :: "nat \<Rightarrow> nat + nat \<times> nat \<times> nat \<times> nat" where
  "utf8Lead b =
     (if b \<le> 0x7F then Inl b
      else if 0xC2 \<le> b \<and> b \<le> 0xDF then Inr (1, b mod 0x20, 0x80, 0xBF)
      else if 0xE0 \<le> b \<and> b \<le> 0xEF then
        Inr (2, b mod 0x10, if b = 0xE0 then 0xA0 else 0x80, if b = 0xED then 0x9F else 0xBF)
      else if 0xF0 \<le> b \<and> b \<le> 0xF4 then
        Inr (3, b mod 0x8, if b = 0xF0 then 0x90 else 0x80, if b = 0xF4 then 0x8F else 0xBF)
      else Inl 0xFFFD)"

fun utf8Decode :: "nat \<Rightarrow> nat \<Rightarrow> nat \<Rightarrow> nat \<Rightarrow> nat list \<Rightarrow> nat list" where
  "utf8Decode needed cp lo hi [] = (if needed = 0 then [] else [0xFFFD])"
| "utf8Decode needed cp lo hi (b # bs) =
     (if needed = 0 then
        (case utf8Lead b of
           Inl c \<Rightarrow> c # utf8Decode 0 0 0x80 0xBF bs
         | Inr (n, c, l, h) \<Rightarrow> utf8Decode n c l h bs)
      else if lo \<le> b \<and> b \<le> hi then
        (if needed = 1 then (cp * 0x40 + (b - 0x80)) # utf8Decode 0 0 0x80 0xBF bs
         else utf8Decode (needed - 1) (cp * 0x40 + (b - 0x80)) 0x80 0xBF bs)
      else
        0xFFFD #
        (case utf8Lead b of
           Inl c \<Rightarrow> c # utf8Decode 0 0 0x80 0xBF bs
         | Inr (n, c, l, h) \<Rightarrow> utf8Decode n c l h bs))"

definition utf16Units :: "nat \<Rightarrow> jsstring" where
  "utf16Units cp =
     (if cp < 0x10000 then [of_nat cp]
      else [of_nat (0xD800 + (cp - 0x10000) div 0x400),
            of_nat (0xDC00 + (cp - 0x10000) mod 0x400)])"

definition formDecode :: "nat list \<Rightarrow> jsstring" where
  "formDecode bytes =
     concat (map utf16Units
       (utf8Decode 0 0 0x80 0xBF
          (percentDecode (map (\<lambda>b. if b = 0x2B then 0x20 else b) bytes))))"

definition nameValue :: "nat list \<Rightarrow> jsstring \<times> jsstring" where
  "nameValue piece =
     (formDecode (takeWhile (\<lambda>b. b \<noteq> 0x3D) piece),
      formDecode (drop 1 (dropWhile (\<lambda>b. b \<noteq> 0x3D) piece)))"

definition urlencodedParse :: "nat list \<Rightarrow> (jsstring \<times> jsstring) list" where
  "urlencodedParse bytes = map nameValue (filter (\<lambda>piece. piece \<noteq> []) (splitOn 0x26 bytes))"

definition queryOf :: "jsstring \<Rightarrow> jsstring" where
  "queryOf u = drop 1 (dropWhile (\<lambda>c. c \<noteq> 0x3F) (takeWhile (\<lambda>c. c \<noteq> 0x23) u))"

definition searchParams :: "jsstring \<Rightarrow> (jsstring \<times> jsstring) list" where
  "searchParams u = urlencodedParse (utf8Bytes (queryOf u))"

text \<open>\<^verbatim>\<open>searchParams.get(name)\<close>: the value of the first pair of that name, or \<^verbatim>\<open>null\<close>.\<close>

definition searchParams_get :: "(jsstring \<times> jsstring) list \<Rightarrow> jsstring \<Rightarrow> jsstring option" where
  "searchParams_get params name = map_of params name"

subsection \<open>JSON values\<close>

text \<open>
  What \<^verbatim>\<open>response.json()\<close> returns. A number is a double: a finite value (\<open>Finite 0\<close>
  is the positive zero), the negative zero, or an infinity, which is what a numeral
  beyond the range of a double parses to (\<^verbatim>\<open>1e400\<close>). An object is the list of its own
  properties in the order of enumeration, looked up by name.
\<close>

datatype jsnumber = Finite real | NegativeZero | PositiveInfinity | NegativeInfinity

datatype json =
    JNull
  | JBool bool
  | JNum jsnumber
  | JStr jsstring
  | JArr "json list"
  | JObj "(jsstring \<times> json) list"

text \<open>The truthiness of a value (\<^verbatim>\<open>ToBoolean\<close>); \<^verbatim>\<open>undefined\<close> is \<open>None\<close>.\<close>

fun isZero :: "jsnumber \<Rightarrow> bool" where
  "isZero (Finite x) = (x = 0)"
| "isZero NegativeZero = True"
| "isZero PositiveInfinity = False"
| "isZero NegativeInfinity = False"

fun truthy :: "json \<Rightarrow> bool" where
  "truthy JNull = False"
| "truthy (JBool b) = b"
| "truthy (JNum n) = (\<not> isZero n)"
| "truthy (JStr s) = (s \<noteq> [])"
| "truthy (JArr xs) = True"
| "truthy (JObj kvs) = True"

definition truthyOpt :: "json option \<Rightarrow> bool" where
  "truthyOpt v = (case v of None \<Rightarrow> False | Some x \<Rightarrow> truthy x)"

text \<open>
  Reading the property \<^verbatim>\<open>error\<close> or \<^verbatim>\<open>detail\<close> of a parsed body (\<^verbatim>\<open>data.error\<close>):
  \<^verbatim>\<open>null\<close> has no properties and the read throws \<^verbatim>\<open>TypeError\<close>; an object gives its
  own property or \<^verbatim>\<open>undefined\<close>; arrays and primitives have no property of these
  names.
\<close>

fun getProp :: "json \<Rightarrow> jsstring \<Rightarrow> builtin + json option" where
  "getProp JNull k = Inl TypeError"
| "getProp (JObj kvs) k = Inr (map_of kvs k)"
| "getProp v k = Inr None"

text \<open>
  \<^verbatim>\<open>JSON.parse(JSON.stringify(v))\<close> for a parsed value \<open>v\<close>: what a reader gets from
  the text written for \<open>v\<close>. \<^verbatim>\<open>JSON.stringify\<close> writes an infinity as \<^verbatim>\<open>null\<close> and
  the negative zero as \<^verbatim>\<open>0\<close>; every other value is read back as it was.
\<close>

fun reserialisedNumber :: "jsnumber \<Rightarrow> json" where
  "reserialisedNumber (Finite x) = JNum (Finite x)"
| "reserialisedNumber NegativeZero = JNum (Finite 0)"
| "reserialisedNumber PositiveInfinity = JNull"
| "reserialisedNumber NegativeInfinity = JNull"

primrec reserialised :: "json \<Rightarrow> json" where
  "reserialised JNull = JNull"
| "reserialised (JBool b) = JBool b"
| "reserialised (JNum n) = reserialisedNumber n"
| "reserialised (JStr s) = JStr s"
| "reserialised (JArr xs) = JArr (map reserialised xs)"
| "reserialised (JObj kvs) = JObj (map (map_prod id reserialised) kvs)"

text \<open>
  \<^verbatim>\<open>ToString(v)\<close> throws \<^verbatim>\<open>TypeError\<close> when no method gives a primitive: for an
  object with an own property \<^verbatim>\<open>toString\<close> (in a parsed value it is never a function,
  and the inherited \<^verbatim>\<open>valueOf\<close> returns the object), and for an array with such an
  element, since \<^verbatim>\<open>join\<close> converts every element that is not \<^verbatim>\<open>null\<close>.
\<close>

fun toStringThrows :: "json \<Rightarrow> bool" where
  "toStringThrows (JObj kvs) = (js ''toString'' \<in> fst ` set kvs)"
| "toStringThrows (JArr xs) = list_ex toStringThrows xs"
| "toStringThrows v = False"

text \<open>
  The message of an \<^verbatim>\<open>Error\<close> object: a string the program knows, the string
  conversion of a JSON value that is not a string, or the engine's text of a built-in
  error. \<^verbatim>\<open>new Error(v)\<close> converts its argument with \<^verbatim>\<open>ToString\<close>, which can throw;
  with \<^verbatim>\<open>undefined\<close> the message is empty.
\<close>

datatype message = Text jsstring | ToString json | EngineText builtin

fun newErrorMessage :: "json option \<Rightarrow> builtin + message" where
  "newErrorMessage None = Inr (Text [])"
| "newErrorMessage (Some (JStr s)) = Inr (Text s)"
| "newErrorMessage (Some v) = (if toStringThrows v then Inl TypeError else Inr (ToString v))"

text \<open>What a \<^verbatim>\<open>catch\<close> clause receives: an \<^verbatim>\<open>Error\<close> instance or any other value.\<close>

datatype thrown = Thrown_Error message | Thrown_Other

definition thrownBuiltin :: "builtin \<Rightarrow> thrown" where
  "thrownBuiltin k = Thrown_Error (EngineText k)"

section \<open>The search controller (src/app/page.tsx)\<close>

text \<open>
  The file holds the page twice; the model follows the first, \<^verbatim>\<open>ArtworkSearchContent\<close>,
  whose \<^verbatim>\<open>handleSearch\<close> the second repeats without the history entry. The component's
  state has one field for each \<^verbatim>\<open>useState\<close>.
\<close>

record ui =
  apiUrl :: jsstring
  queryType :: jsstring
  searchQuery :: jsstring
  artworkId :: jsstring
  compareId :: jsstring
  results :: json
  loading :: bool
  error :: "message option"
  debugUrl :: jsstring
  isSharedLink :: bool

definition defaultApiUrl :: jsstring where
  "defaultApiUrl = js ''https://api-test.artic.edu''"

text \<open>The state of the first render: the arguments of the \<^verbatim>\<open>useState\<close> calls.\<close>

definition initialState :: ui where
  "initialState =
     \<lparr>apiUrl = defaultApiUrl, queryType = js ''semantic'', searchQuery = [], artworkId = [],
      compareId = [], results = JNull, loading = False, error = None, debugUrl = [],
      isSharedLink = False\<rparr>"

text \<open>
  What a call of \<^verbatim>\<open>handleSearch\<close> does to the outside: a new history entry with the
  given query parameters, a request to the given URL, a line on the console.
\<close>

datatype effect =
    PushState "(jsstring \<times> jsstring) list"
  | Fetch jsstring
  | ConsoleError thrown

fun fetches :: "effect list \<Rightarrow> jsstring list" where
  "fetches [] = []"
| "fetches (Fetch u # es) = u # fetches es"
| "fetches (e # es) = fetches es"

text \<open>\<^verbatim>\<open>updateUrl\<close>: the parameters set on the \<^verbatim>\<open>URLSearchParams\<close>, in order.\<close>

definition updateUrl :: "ui \<Rightarrow> (jsstring \<times> jsstring) list" where
  "updateUrl s =
     [(js ''type'', queryType s)]
     @ (if queryType s = js ''semantic'' \<and> searchQuery s \<noteq> []
        then [(js ''q'', searchQuery s)] else [])
     @ (if (queryType s = js ''nearest_neighbor'' \<or> queryType s = js ''similarity'')
           \<and> artworkId s \<noteq> []
        then [(js ''id'', artworkId s)] else [])
     @ (if queryType s = js ''similarity'' \<and> compareId s \<noteq> []
        then [(js ''compareId'', compareId s)] else [])
     @ (if apiUrl s \<noteq> defaultApiUrl then [(js ''api'', apiUrl s)] else [])"

text \<open>
  The \<^verbatim>\<open>switch\<close> of \<^verbatim>\<open>handleSearch\<close>: the value of \<^verbatim>\<open>apiPath\<close> after it, or what it
  throws.
\<close>

definition validationError :: "string \<Rightarrow> thrown" where
  "validationError m = Thrown_Error (Text (js m))"

definition encoded :: "jsstring \<Rightarrow> (jsstring \<Rightarrow> thrown + 'a) \<Rightarrow> thrown + 'a" where
  "encoded s k =
     (case encodeURIComponent s of Inl b \<Rightarrow> Inl (thrownBuiltin b) | Inr e \<Rightarrow> k e)"

definition apiPath :: "ui \<Rightarrow> thrown + jsstring" where
  "apiPath s =
     (if queryType s = js ''semantic'' then
        if trim (searchQuery s) = [] then Inl (validationError ''Search query is required'')
        else encoded (trim (searchQuery s))
               (\<lambda>q. Inr (js ''/ai/v1/artworks/search?q='' @ q))
      else if queryType s = js ''nearest_neighbor'' then
        if trim (artworkId s) = [] then Inl (validationError ''Artwork ID is required'')
        else encoded (trim (artworkId s))
               (\<lambda>i. Inr (js ''/ai/v1/artworks/'' @ i @ js ''/nearest?limit=30''))
      else if queryType s = js ''similarity'' then
        if trim (artworkId s) = [] \<or> trim (compareId s) = []
        then Inl (validationError ''Both artwork IDs are required for similarity search'')
        else encoded (trim (artworkId s)) (\<lambda>i.
             encoded (trim (compareId s)) (\<lambda>c.
               Inr (js ''/ai/v1/artworks/'' @ i @ js ''/similarity/'' @ c)))
      else Inl (validationError ''Invalid search type''))"

text \<open>
  \<^verbatim>\<open>handleSearch\<close> is an \<^verbatim>\<open>async\<close> function: it runs up to \<^verbatim>\<open>await fetch(url)\<close> when
  it is called and continues when the request has settled. Between the two, other event
  handlers can run. The model has one function for each part. The second \<^verbatim>\<open>await\<close>
  (\<^verbatim>\<open>response.json()\<close>) is folded into the second part: the function touches no state
  between the two awaits.

  The \<^verbatim>\<open>catch\<close> clause: the message shown is the error's own, or the generic one for
  a thrown value that is no \<^verbatim>\<open>Error\<close>; \<^verbatim>\<open>finally\<close> ends the loading state.
\<close>

definition genericMessage :: jsstring where
  "genericMessage = js ''Failed to fetch results''"

definition errorMessage :: "thrown \<Rightarrow> message" where
  "errorMessage err = (case err of Thrown_Error m \<Rightarrow> m | Thrown_Other \<Rightarrow> Text genericMessage)"

definition catchFinally :: "thrown \<Rightarrow> ui \<Rightarrow> ui \<times> effect list" where
  "catchFinally err s =
     (s\<lparr>error := Some (errorMessage err), loading := False\<rparr>, [ConsoleError err])"

text \<open>
  The first part: clear the display, push the history entry if asked, validate and build
  the path, build the proxy URL, show the debug URL, send the request. The values read
  are those of the state the handler was created from.
\<close>

definition handleSearch_begin :: "bool \<Rightarrow> ui \<Rightarrow> ui \<times> effect list" where
  "handleSearch_begin updateUrlFlag s =
     (let cleared = s\<lparr>results := JNull, loading := True, error := None, debugUrl := []\<rparr>;
          pushed = (if updateUrlFlag then [PushState (updateUrl s)] else []);
          baseUrl = stripTrailingSlash (apiUrl s)
      in case apiPath s of
           Inl err \<Rightarrow> (case catchFinally err cleared of (s', es) \<Rightarrow> (s', pushed @ es))
         | Inr p \<Rightarrow>
             (case encodeURIComponent p of
                Inl b \<Rightarrow>
                  (case catchFinally (thrownBuiltin b) cleared of (s', es) \<Rightarrow> (s', pushed @ es))
              | Inr e \<Rightarrow>
                  (cleared\<lparr>debugUrl := baseUrl @ p\<rparr>,
                   pushed @ [Fetch (js ''/api/artwork?path='' @ e)])))"

text \<open>
  How a request settles: \<^verbatim>\<open>fetch\<close> rejects (a network failure is a \<^verbatim>\<open>TypeError\<close>), or
  it gives a response with a status and a body; the field \<open>json\<close> is what parsing the
  body as JSON gives, a value or the error. \<^verbatim>\<open>response.ok\<close> is true for the statuses
  200 to 299.
\<close>

record response =
  status :: nat
  json :: "builtin + json"

type_synonym settled = "builtin + response"

definition ok :: "response \<Rightarrow> bool" where
  "ok r \<longleftrightarrow> 200 \<le> status r \<and> status r \<le> 299"

text \<open>
  \<^verbatim>\<open>response.json()\<close>. A response with a null body status of the Fetch standard (101,
  103, 204, 205, 304) has no body, whatever the server sent: there is nothing to parse
  and the call rejects with \<^verbatim>\<open>SyntaxError\<close>.
\<close>

definition nullBodyStatus :: "nat \<Rightarrow> bool" where
  "nullBodyStatus st \<longleftrightarrow> st \<in> set [101, 103, 204, 205, 304]"

definition response_json :: "response \<Rightarrow> builtin + json" where
  "response_json r = (if nullBodyStatus (status r) then Inl SyntaxError else json r)"

text \<open>\<^verbatim>\<open>data.error || data.detail || 'Failed to fetch results'\<close>\<close>

definition errorOrDetail :: "json \<Rightarrow> builtin + json option" where
  "errorOrDetail data =
     (case getProp data (js ''error'') of
        Inl b \<Rightarrow> Inl b
      | Inr e \<Rightarrow>
          if truthyOpt e then Inr e
          else (case getProp data (js ''detail'') of
                  Inl b \<Rightarrow> Inl b
                | Inr d \<Rightarrow> if truthyOpt d then Inr d else Inr (Some (JStr genericMessage))))"

text \<open>The second part: from the settled request to the end of the function.\<close>

definition handleSearch_resume :: "settled \<Rightarrow> ui \<Rightarrow> ui \<times> effect list" where
  "handleSearch_resume r s =
     (case r of
        Inl b \<Rightarrow> catchFinally (thrownBuiltin b) s
      | Inr resp \<Rightarrow>
          (case response_json resp of
             Inl b \<Rightarrow> catchFinally (thrownBuiltin b) s
           | Inr data \<Rightarrow>
               if \<not> ok resp then
                 (case errorOrDetail data of
                    Inl b \<Rightarrow> catchFinally (thrownBuiltin b) s
                  | Inr v \<Rightarrow>
                      (case newErrorMessage v of
                         Inl b \<Rightarrow> catchFinally (thrownBuiltin b) s
                       | Inr m \<Rightarrow> catchFinally (Thrown_Error m) s))
               else (s\<lparr>results := data, loading := False\<rparr>, [])))"

text \<open>
  One call of \<^verbatim>\<open>handleSearch\<close> with nothing running in between: \<open>net\<close> says how the
  request to a URL settles.
\<close>

definition handleSearch :: "bool \<Rightarrow> (jsstring \<Rightarrow> settled) \<Rightarrow> ui \<Rightarrow> ui \<times> effect list" where
  "handleSearch updateUrlFlag net s =
     (case handleSearch_begin updateUrlFlag s of
        (s1, es1) \<Rightarrow>
          (case fetches es1 of
             [] \<Rightarrow> (s1, es1)
           | u # _ \<Rightarrow> (case handleSearch_resume (net u) s1 of (s2, es2) \<Rightarrow> (s2, es1 @ es2))))"

text \<open>
  Searches can overlap: the Enter key starts one while another awaits its response, and
  nothing cancels the earlier request. The events of the component are a search that
  begins and a pending request that settles, in any order; \<open>run\<close> gives the state and
  the pending requests after a sequence of events, or \<open>None\<close> when an event names a
  request that is not pending.
\<close>

datatype event = Search bool | Settled nat settled

fun step :: "event \<Rightarrow> ui \<times> jsstring list \<Rightarrow> (ui \<times> jsstring list) option" where
  "step (Search flag) (s, pending) =
     (case handleSearch_begin flag s of (s', es) \<Rightarrow> Some (s', pending @ fetches es))"
| "step (Settled i r) (s, pending) =
     (if i < length pending
      then Some (fst (handleSearch_resume r s), take i pending @ drop (Suc i) pending)
      else None)"

fun run :: "event list \<Rightarrow> ui \<times> jsstring list \<Rightarrow> (ui \<times> jsstring list) option" where
  "run [] a = Some a"
| "run (e # es) a = (case step e a of None \<Rightarrow> None | Some a' \<Rightarrow> run es a')"








section \<open>The proxy forwarder (src/app/api/artwork/route.tsx)\<close>

text \<open>
  The handler's input is the request, of which it reads the URL, and the upstream
  world: how the outbound request to a URL settles. The outbound request is a
  \<^verbatim>\<open>GET\<close> with two fixed headers (\<^verbatim>\<open>Accept\<close> and a bearer \<^verbatim>\<open>Authorization\<close>), which
  nothing below depends on. The handler's output is a response and the list of the
  outbound requests it has sent.
\<close>

record request =
  url :: jsstring

text \<open>
  \<^verbatim>\<open>NextResponse.json(body, {status})\<close> writes the body with \<^verbatim>\<open>JSON.stringify\<close> and
  builds the response as the \<^verbatim>\<open>Response\<close> constructor of the Fetch standard does: a
  status outside 200 to 599 throws \<^verbatim>\<open>RangeError\<close>, a null body status with a body
  throws \<^verbatim>\<open>TypeError\<close>. What a reader of the response parses is the value written.
  The status is 200 when none is given.
\<close>

definition NextResponse_json :: "json \<Rightarrow> nat \<Rightarrow> builtin + response" where
  "NextResponse_json body st =
     (if st < 200 \<or> 599 < st then Inl RangeError
      else if nullBodyStatus st then Inl TypeError
      else Inr \<lparr>status = st, json = Inr (reserialised body)\<rparr>)"

definition errorPayload :: "string \<Rightarrow> json" where
  "errorPayload m = JObj [(js ''error'', JStr (js m))]"

text \<open>\<^verbatim>\<open>!v\<close> for a value that is a string or \<^verbatim>\<open>null\<close>.\<close>

definition missing :: "jsstring option \<Rightarrow> bool" where
  "missing v = (case v of None \<Rightarrow> True | Some x \<Rightarrow> x = [])"

text \<open>A string or \<^verbatim>\<open>null\<close> inside a template literal.\<close>

definition templated :: "jsstring option \<Rightarrow> jsstring" where
  "templated v = (case v of None \<Rightarrow> js ''null'' | Some x \<Rightarrow> x)"

text \<open>The \<^verbatim>\<open>try\<close> block: the response it returns or the error it throws.\<close>

definition GET_try :: "(jsstring \<Rightarrow> settled) \<Rightarrow> request \<Rightarrow> (builtin + response) \<times> jsstring list" where
  "GET_try upstream req =
     (let params = searchParams (url req);
          baseUrl = searchParams_get params (js ''apiUrl'');
          path = searchParams_get params (js ''path'')
      in if missing path then (NextResponse_json (errorPayload ''Path is required'') 400, [])
         else if missing baseUrl
         then (NextResponse_json (errorPayload ''API URL is required'') 400, [])
         else
           (let target = templated baseUrl @ templated path in
            case upstream target of
              Inl b \<Rightarrow> (Inl b, [target])
            | Inr resp \<Rightarrow>
                (case response_json resp of
                   Inl b \<Rightarrow> (Inl b, [target])
                 | Inr data \<Rightarrow>
                     if \<not> ok resp then (NextResponse_json data (status resp), [target])
                     else (NextResponse_json data 200, [target]))))"

text \<open>
  The handler: the \<^verbatim>\<open>catch\<close> clause answers every error of the \<^verbatim>\<open>try\<close> block with
  the same response. An error thrown in the clause itself would leave the handler.
\<close>

definition GET :: "(jsstring \<Rightarrow> settled) \<Rightarrow> request \<Rightarrow> (builtin + response) \<times> jsstring list" where
  "GET upstream req =
     (case GET_try upstream req of
        (Inl b, sent) \<Rightarrow> (NextResponse_json (errorPayload ''Failed to fetch results'') 500, sent)
      | (Inr resp, sent) \<Rightarrow> (Inr resp, sent))"

section \<open>The controller's requests at the forwarder\<close>

text \<open>
  The controller fetches a URL relative to the page. The browser resolves it against the
  page's origin, the handler receives the request with that absolute URL, and the
  handler's response is what the controller's \<^verbatim>\<open>fetch\<close> resolves to.
\<close>

definition viaProxy :: "jsstring \<Rightarrow> (jsstring \<Rightarrow> settled) \<Rightarrow> jsstring \<Rightarrow> settled" where
  "viaProxy origin upstream u = fst (GET upstream \<lparr>url = origin @ u\<rparr>)"

section \<open>Example inputs\<close>

text \<open>
  Requests as the forwarder receives them: without parameters, with the path only, with
  both parameters.
\<close>

definition bareRequest :: request where
  "bareRequest = \<lparr>url = js ''http://localhost:3000/api/artwork''\<rparr>"

definition pathOnlyRequest :: request where
  "pathOnlyRequest =
     \<lparr>url = js ''http://localhost:3000/api/artwork?path=%2Fai%2Fv1%2Fartworks%2Fsearch%3Fq%3Dcats''\<rparr>"

definition fullRequest :: request where
  "fullRequest =
     \<lparr>url = js ''http://localhost:3000/api/artwork?apiUrl=https%3A%2F%2Fapi-test.artic.edu&path=%2Fai%2Fv1%2Fartworks%2Fsearch%3Fq%3Dcats''\<rparr>"

text \<open>Requests with an empty value: \<^verbatim>\<open>?path=\<close>, and \<^verbatim>\<open>?apiUrl=\<close> with a path.\<close>

definition emptyPathRequest :: request where
  "emptyPathRequest = \<lparr>url = js ''http://localhost:3000/api/artwork?path=''\<rparr>"

definition emptyApiUrlRequest :: request where
  "emptyApiUrlRequest =
     \<lparr>url = js ''http://localhost:3000/api/artwork?apiUrl=&path=%2Fai%2Fv1%2Fartworks%2Fsearch%3Fq%3Dcats''\<rparr>"

text \<open>
  Upstream worlds: a 204 without a body (its \<^verbatim>\<open>json()\<close> rejects), a 404 with a JSON
  body, a 201 with a JSON body, a host that cannot be reached, a status 600 with a JSON
  body, and a 404 whose body is \<^verbatim>\<open>{"x": 1e400}\<close>.
\<close>

definition noContentUpstream :: "jsstring \<Rightarrow> settled" where
  "noContentUpstream u = Inr \<lparr>status = 204, json = Inl SyntaxError\<rparr>"

definition notFoundUpstream :: "jsstring \<Rightarrow> settled" where
  "notFoundUpstream u =
     Inr \<lparr>status = 404, json = Inr (JObj [(js ''detail'', JStr (js ''Not Found''))])\<rparr>"

definition createdUpstream :: "jsstring \<Rightarrow> settled" where
  "createdUpstream u = Inr \<lparr>status = 201, json = Inr (JObj [(js ''items'', JArr [])])\<rparr>"

definition unreachableUpstream :: "jsstring \<Rightarrow> settled" where
  "unreachableUpstream u = Inl TypeError"

definition outOfRangeUpstream :: "jsstring \<Rightarrow> settled" where
  "outOfRangeUpstream u =
     Inr \<lparr>status = 600, json = Inr (JObj [(js ''detail'', JStr (js ''Not Found''))])\<rparr>"

definition overflowUpstream :: "jsstring \<Rightarrow> settled" where
  "overflowUpstream u = Inr \<lparr>status = 404, json = Inr (JObj [(js ''x'', JNum PositiveInfinity)])\<rparr>"

text \<open>Payloads of the two shapes.\<close>

definition listPayload :: json where
  "listPayload = JObj [(js ''count'', JNum (Finite 0)), (js ''items'', JArr []),
                         (js ''total'', JNum (Finite 0))]"



text \<open>Error bodies whose \<^verbatim>\<open>error\<close> is no string: \<^verbatim>\<open>{"error": true}\<close>.\<close>

definition errorTruePayload :: json where
  "errorTruePayload = JObj [(js ''error'', JBool True)]"

text \<open>
  States of the component: the query \<^verbatim>\<open>cats\<close> typed into the first render, and an
  empty form that still displays an earlier result.
\<close>

definition catsSearch :: ui where
  "catsSearch = initialState\<lparr>searchQuery := js ''cats''\<rparr>"

definition staleDisplay :: ui where
  "staleDisplay = initialState\<lparr>results := listPayload, debugUrl := js ''https://api-test.artic.edu/x''\<rparr>"

text \<open>The body of a 404 of the upstream API.\<close>

definition notFoundPayload :: json where
  "notFoundPayload = JObj [(js ''detail'', JStr (js ''Not Found''))]"

text \<open>
  Two searches begin one after the other; the second is answered first, with a result;
  the first is answered last, with a 404.
\<close>

definition overlapping :: "event list" where
  "overlapping =
     [Search True, Search True,
      Settled 1 (Inr \<lparr>status = 200, json = Inr listPayload\<rparr>),
      Settled 0 (Inr \<lparr>status = 404, json = Inr notFoundPayload\<rparr>)]"

section \<open>Properties\<close>

text \<open>Unfolding the string functions evaluates them on a literal.\<close>

lemmas string_evals =
  js_def trim_def isWhiteSpace_def uriUnescaped_def isTrailSurrogate_def isLeadSurrogate_def
  escapeCodePoint_def utf8Encode_def percentEscape_def hexDigit_def

lemma js_nonempty: "js (c # cs) \<noteq> []"
  by (simp add: js_def)

subsection \<open>encodeURIComponent returns exactly on the well-formed strings\<close>

lemma uriUnescaped_not_surrogate:
  "uriUnescaped c \<Longrightarrow> \<not> isTrailSurrogate c \<and> \<not> isLeadSurrogate c"
  by (auto simp: uriUnescaped_def js_def isTrailSurrogate_def isLeadSurrogate_def)

lemma encodeURIComponent_total:
  "isWellFormed s \<longleftrightarrow> (\<exists>e. encodeURIComponent s = Inr e)"
proof (induction s rule: encodeURIComponent.induct)
  case 1
  show ?case by simp
next
  case (2 c cs)
  show ?case
  proof (cases "uriUnescaped c")
    case True
    with 2 uriUnescaped_not_surrogate [of c] show ?thesis
      by (cases "encodeURIComponent cs") auto
  next
    case False
    show ?thesis
    proof (cases "isTrailSurrogate c")
      case True
      with False show ?thesis by simp
    next
      case nt: False
      show ?thesis
      proof (cases "isLeadSurrogate c")
        case True
        show ?thesis
        proof (cases cs)
          case Nil
          with False nt True show ?thesis by simp
        next
          case (Cons d ds)
          with False nt True 2(2) [of d ds] show ?thesis
            by (cases "encodeURIComponent ds") auto
        qed
      next
        case nl: False
        with False nt 2(3) show ?thesis
          by (cases "encodeURIComponent cs") auto
      qed
    qed
  qed
qed

subsection \<open>The path of each mode\<close>

lemma mode_names_distinct:
  "js ''semantic'' \<noteq> js ''nearest_neighbor''"
  "js ''semantic'' \<noteq> js ''similarity''"
  "js ''nearest_neighbor'' \<noteq> js ''similarity''"
  "js ''nearest_neighbor'' \<noteq> js ''semantic''"
  "js ''similarity'' \<noteq> js ''semantic''"
  "js ''similarity'' \<noteq> js ''nearest_neighbor''"
  by (simp_all add: js_def)

lemma apiPath_semantic:
  "queryType s = js ''semantic'' \<Longrightarrow>
   apiPath s =
     (if trim (searchQuery s) = [] then Inl (validationError ''Search query is required'')
      else encoded (trim (searchQuery s)) (\<lambda>q. Inr (js ''/ai/v1/artworks/search?q='' @ q)))"
  by (simp add: apiPath_def)

lemma apiPath_nearest_neighbor:
  "queryType s = js ''nearest_neighbor'' \<Longrightarrow>
   apiPath s =
     (if trim (artworkId s) = [] then Inl (validationError ''Artwork ID is required'')
      else encoded (trim (artworkId s))
             (\<lambda>i. Inr (js ''/ai/v1/artworks/'' @ i @ js ''/nearest?limit=30'')))"
  by (simp add: apiPath_def mode_names_distinct)

lemma apiPath_similarity:
  "queryType s = js ''similarity'' \<Longrightarrow>
   apiPath s =
     (if trim (artworkId s) = [] \<or> trim (compareId s) = []
      then Inl (validationError ''Both artwork IDs are required for similarity search'')
      else encoded (trim (artworkId s)) (\<lambda>i.
           encoded (trim (compareId s)) (\<lambda>c.
             Inr (js ''/ai/v1/artworks/'' @ i @ js ''/similarity/'' @ c))))"
  by (simp add: apiPath_def mode_names_distinct)

lemma apiPath_other:
  "queryType s \<noteq> js ''semantic'' \<Longrightarrow> queryType s \<noteq> js ''nearest_neighbor'' \<Longrightarrow>
   queryType s \<noteq> js ''similarity'' \<Longrightarrow>
   apiPath s = Inl (validationError ''Invalid search type'')"
  by (simp add: apiPath_def)

lemma encoded_Inr: "encodeURIComponent x = Inr e \<Longrightarrow> encoded x k = k e"
  by (simp add: encoded_def)

text \<open>
  Claim C2. The path built by the \<^verbatim>\<open>switch\<close> is the template of the mode: in mode
  semantic with a query that is not empty after trimming, the search path followed by the
  URL-encoded trimmed query; in mode nearest_neighbor with such an id, the artworks path,
  the encoded id and \<^verbatim>\<open>/nearest?limit=30\<close>; in mode similarity with two such ids, the
  artworks path, the first encoded id, \<^verbatim>\<open>/similarity/\<close> and the second encoded id.
\<close>

theorem apiPath_template:
  "(queryType s1 = js ''semantic'' \<and> trim (searchQuery s1) \<noteq> []
      \<and> encodeURIComponent (trim (searchQuery s1)) = Inr q
    \<longrightarrow> apiPath s1 = Inr (js ''/ai/v1/artworks/search?q='' @ q))
   \<and> (queryType s2 = js ''nearest_neighbor'' \<and> trim (artworkId s2) \<noteq> []
      \<and> encodeURIComponent (trim (artworkId s2)) = Inr i
    \<longrightarrow> apiPath s2 = Inr (js ''/ai/v1/artworks/'' @ i @ js ''/nearest?limit=30''))
   \<and> (queryType s3 = js ''similarity'' \<and> trim (artworkId s3) \<noteq> [] \<and> trim (compareId s3) \<noteq> []
      \<and> encodeURIComponent (trim (artworkId s3)) = Inr i1
      \<and> encodeURIComponent (trim (compareId s3)) = Inr i2
    \<longrightarrow> apiPath s3 = Inr (js ''/ai/v1/artworks/'' @ i1 @ js ''/similarity/'' @ i2))"
proof (intro conjI impI)
  assume "queryType s1 = js ''semantic'' \<and> trim (searchQuery s1) \<noteq> []
      \<and> encodeURIComponent (trim (searchQuery s1)) = Inr q"
  then show "apiPath s1 = Inr (js ''/ai/v1/artworks/search?q='' @ q)"
    by (simp add: apiPath_semantic encoded_Inr)
next
  assume "queryType s2 = js ''nearest_neighbor'' \<and> trim (artworkId s2) \<noteq> []
      \<and> encodeURIComponent (trim (artworkId s2)) = Inr i"
  then show "apiPath s2 = Inr (js ''/ai/v1/artworks/'' @ i @ js ''/nearest?limit=30'')"
    by (simp add: apiPath_nearest_neighbor encoded_Inr)
next
  assume "queryType s3 = js ''similarity'' \<and> trim (artworkId s3) \<noteq> [] \<and> trim (compareId s3) \<noteq> []
      \<and> encodeURIComponent (trim (artworkId s3)) = Inr i1
      \<and> encodeURIComponent (trim (compareId s3)) = Inr i2"
  then show "apiPath s3 = Inr (js ''/ai/v1/artworks/'' @ i1 @ js ''/similarity/'' @ i2)"
    by (simp add: apiPath_similarity encoded_Inr)
qed

theorem apiPath_template_witness:
  "apiPath (initialState\<lparr>searchQuery := js ''cats''\<rparr>) = Inr (js ''/ai/v1/artworks/search?q=cats'')
   \<and> apiPath (initialState\<lparr>queryType := js ''nearest_neighbor'', artworkId := js ''129884''\<rparr>)
       = Inr (js ''/ai/v1/artworks/129884/nearest?limit=30'')
   \<and> apiPath (initialState\<lparr>queryType := js ''similarity'', artworkId := js ''1'', compareId := js ''2''\<rparr>)
       = Inr (js ''/ai/v1/artworks/1/similarity/2'')"
  using apiPath_template
    [of "initialState\<lparr>searchQuery := js ''cats''\<rparr>" "js ''cats''"
        "initialState\<lparr>queryType := js ''nearest_neighbor'', artworkId := js ''129884''\<rparr>" "js ''129884''"
        "initialState\<lparr>queryType := js ''similarity'', artworkId := js ''1'', compareId := js ''2''\<rparr>"
        "js ''1''" "js ''2''"]
  by (simp add: initialState_def string_evals)

subsection \<open>The two parts of handleSearch\<close>

lemma fetches_append: "fetches (xs @ ys) = fetches xs @ fetches ys"
  by (induction xs rule: fetches.induct) simp_all

lemma fetches_pushed: "fetches (if flag then [PushState ps] else []) = []"
  by simp

lemma handleSearch_begin_invalid:
  "apiPath s = Inl err \<Longrightarrow>
   handleSearch_begin flag s =
     (s\<lparr>results := JNull, loading := False, error := Some (errorMessage err), debugUrl := []\<rparr>,
      (if flag then [PushState (updateUrl s)] else []) @ [ConsoleError err])"
  by (simp add: handleSearch_begin_def catchFinally_def Let_def)

lemma handleSearch_begin_valid:
  "apiPath s = Inr p \<Longrightarrow> encodeURIComponent p = Inr e \<Longrightarrow>
   handleSearch_begin flag s =
     (s\<lparr>results := JNull, loading := True, error := None,
        debugUrl := stripTrailingSlash (apiUrl s) @ p\<rparr>,
      (if flag then [PushState (updateUrl s)] else []) @ [Fetch (js ''/api/artwork?path='' @ e)])"
  by (simp add: handleSearch_begin_def Let_def)

lemma handleSearch_begin_unencodable:
  "apiPath s = Inr p \<Longrightarrow> encodeURIComponent p = Inl b \<Longrightarrow>
   handleSearch_begin flag s =
     (s\<lparr>results := JNull, loading := False, error := Some (EngineText b), debugUrl := []\<rparr>,
      (if flag then [PushState (updateUrl s)] else []) @ [ConsoleError (thrownBuiltin b)])"
  by (simp add: handleSearch_begin_def catchFinally_def Let_def errorMessage_def thrownBuiltin_def)

lemma handleSearch_unfold:
  "handleSearch flag net s =
     (case fetches (snd (handleSearch_begin flag s)) of
        [] \<Rightarrow> handleSearch_begin flag s
      | u # us \<Rightarrow>
          (fst (handleSearch_resume (net u) (fst (handleSearch_begin flag s))),
           snd (handleSearch_begin flag s)
           @ snd (handleSearch_resume (net u) (fst (handleSearch_begin flag s)))))"
  by (simp add: handleSearch_def split: prod.split list.split)

lemma handleSearch_invalid:
  "apiPath s = Inl err \<Longrightarrow>
   handleSearch flag net s =
     (s\<lparr>results := JNull, loading := False, error := Some (errorMessage err), debugUrl := []\<rparr>,
      (if flag then [PushState (updateUrl s)] else []) @ [ConsoleError err])"
  by (simp add: handleSearch_def handleSearch_begin_invalid fetches_append)

lemma errorMessage_validationError: "errorMessage (validationError m) = Text (js m)"
  by (simp add: errorMessage_def validationError_def)

text \<open>
  Claim C3. When a field the mode requires is empty after trimming, or the mode is none
  of the three, the search ends with the validation message of that case as the error
  shown, and it sends no request.
\<close>

theorem handleSearch_validation:
  "(queryType s1 = js ''semantic'' \<and> trim (searchQuery s1) = []
    \<longrightarrow> error (fst (handleSearch flag net s1)) = Some (Text (js ''Search query is required''))
        \<and> fetches (snd (handleSearch flag net s1)) = [])
   \<and> (queryType s2 = js ''nearest_neighbor'' \<and> trim (artworkId s2) = []
    \<longrightarrow> error (fst (handleSearch flag net s2)) = Some (Text (js ''Artwork ID is required''))
        \<and> fetches (snd (handleSearch flag net s2)) = [])
   \<and> (queryType s3 = js ''similarity'' \<and> (trim (artworkId s3) = [] \<or> trim (compareId s3) = [])
    \<longrightarrow> error (fst (handleSearch flag net s3))
          = Some (Text (js ''Both artwork IDs are required for similarity search''))
        \<and> fetches (snd (handleSearch flag net s3)) = [])
   \<and> (queryType s4 \<noteq> js ''semantic'' \<and> queryType s4 \<noteq> js ''nearest_neighbor''
       \<and> queryType s4 \<noteq> js ''similarity''
    \<longrightarrow> error (fst (handleSearch flag net s4)) = Some (Text (js ''Invalid search type''))
        \<and> fetches (snd (handleSearch flag net s4)) = [])"
proof (intro conjI impI)
  assume "queryType s1 = js ''semantic'' \<and> trim (searchQuery s1) = []"
  then have "apiPath s1 = Inl (validationError ''Search query is required'')"
    by (simp add: apiPath_semantic)
  then show "error (fst (handleSearch flag net s1)) = Some (Text (js ''Search query is required''))"
    and "fetches (snd (handleSearch flag net s1)) = []"
    by (simp_all add: handleSearch_invalid errorMessage_validationError fetches_append)
next
  assume "queryType s2 = js ''nearest_neighbor'' \<and> trim (artworkId s2) = []"
  then have "apiPath s2 = Inl (validationError ''Artwork ID is required'')"
    by (simp add: apiPath_nearest_neighbor)
  then show "error (fst (handleSearch flag net s2)) = Some (Text (js ''Artwork ID is required''))"
    and "fetches (snd (handleSearch flag net s2)) = []"
    by (simp_all add: handleSearch_invalid errorMessage_validationError fetches_append)
next
  assume "queryType s3 = js ''similarity'' \<and> (trim (artworkId s3) = [] \<or> trim (compareId s3) = [])"
  then have "apiPath s3
      = Inl (validationError ''Both artwork IDs are required for similarity search'')"
    by (auto simp: apiPath_similarity)
  then show "error (fst (handleSearch flag net s3))
      = Some (Text (js ''Both artwork IDs are required for similarity search''))"
    and "fetches (snd (handleSearch flag net s3)) = []"
    by (simp_all add: handleSearch_invalid errorMessage_validationError fetches_append)
next
  assume "queryType s4 \<noteq> js ''semantic'' \<and> queryType s4 \<noteq> js ''nearest_neighbor''
       \<and> queryType s4 \<noteq> js ''similarity''"
  then have "apiPath s4 = Inl (validationError ''Invalid search type'')"
    by (simp add: apiPath_other)
  then show "error (fst (handleSearch flag net s4)) = Some (Text (js ''Invalid search type''))"
    and "fetches (snd (handleSearch flag net s4)) = []"
    by (simp_all add: handleSearch_invalid errorMessage_validationError fetches_append)
qed

theorem handleSearch_validation_witness:
  "trim (searchQuery (initialState\<lparr>searchQuery := js ''  ''\<rparr>)) = []
   \<and> error (fst (handleSearch True unreachableUpstream (initialState\<lparr>searchQuery := js ''  ''\<rparr>)))
       = Some (Text (js ''Search query is required''))
   \<and> fetches (snd (handleSearch True unreachableUpstream (initialState\<lparr>searchQuery := js ''  ''\<rparr>))) = []
   \<and> error (fst (handleSearch True unreachableUpstream
         (initialState\<lparr>queryType := js ''nearest_neighbor''\<rparr>)))
       = Some (Text (js ''Artwork ID is required''))
   \<and> fetches (snd (handleSearch True unreachableUpstream
         (initialState\<lparr>queryType := js ''nearest_neighbor''\<rparr>))) = []
   \<and> error (fst (handleSearch True unreachableUpstream
         (initialState\<lparr>queryType := js ''similarity'', artworkId := js ''1''\<rparr>)))
       = Some (Text (js ''Both artwork IDs are required for similarity search''))
   \<and> fetches (snd (handleSearch True unreachableUpstream
         (initialState\<lparr>queryType := js ''similarity'', artworkId := js ''1''\<rparr>))) = []
   \<and> error (fst (handleSearch True unreachableUpstream (initialState\<lparr>queryType := js ''keyword''\<rparr>)))
       = Some (Text (js ''Invalid search type''))
   \<and> fetches (snd (handleSearch True unreachableUpstream (initialState\<lparr>queryType := js ''keyword''\<rparr>)))
       = []"
  using handleSearch_validation
    [of "initialState\<lparr>searchQuery := js ''  ''\<rparr>" True unreachableUpstream
        "initialState\<lparr>queryType := js ''nearest_neighbor''\<rparr>"
        "initialState\<lparr>queryType := js ''similarity'', artworkId := js ''1''\<rparr>"
        "initialState\<lparr>queryType := js ''keyword''\<rparr>"]
  by (simp add: initialState_def js_def trim_def isWhiteSpace_def)

subsection \<open>The message of a failed request\<close>

lemma response_json_example:
  "\<not> nullBodyStatus st \<Longrightarrow> response_json \<lparr>status = st, json = j\<rparr> = j"
  by (simp add: response_json_def)

lemma handleSearch_resume_rejected:
  "error (fst (handleSearch_resume (Inl b) s)) = Some (EngineText b)"
  by (simp add: handleSearch_resume_def catchFinally_def thrownBuiltin_def errorMessage_def)

lemma handleSearch_resume_failure:
  "\<not> ok resp \<Longrightarrow> response_json resp = Inr data \<Longrightarrow> errorOrDetail data = Inr v \<Longrightarrow>
   newErrorMessage v = Inr m \<Longrightarrow>
   error (fst (handleSearch_resume (Inr resp) s)) = Some m"
  by (simp add: handleSearch_resume_def catchFinally_def errorMessage_def)

lemma handleSearch_resume_unreadable:
  "\<not> ok resp \<Longrightarrow> response_json resp = Inr data \<Longrightarrow> errorOrDetail data = Inl b \<Longrightarrow>
   error (fst (handleSearch_resume (Inr resp) s)) = Some (EngineText b)"
  by (simp add: handleSearch_resume_def catchFinally_def errorMessage_def thrownBuiltin_def)

lemma handleSearch_resume_unconvertible:
  "\<not> ok resp \<Longrightarrow> response_json resp = Inr data \<Longrightarrow> errorOrDetail data = Inr v \<Longrightarrow>
   newErrorMessage v = Inl b \<Longrightarrow>
   error (fst (handleSearch_resume (Inr resp) s)) = Some (EngineText b)"
  by (simp add: handleSearch_resume_def catchFinally_def errorMessage_def thrownBuiltin_def)

lemma errorOrDetail_error:
  "getProp data (js ''error'') = Inr e \<Longrightarrow> truthyOpt e \<Longrightarrow> errorOrDetail data = Inr e"
  by (simp add: errorOrDetail_def)

lemma errorOrDetail_detail:
  "getProp data (js ''error'') = Inr e \<Longrightarrow> \<not> truthyOpt e \<Longrightarrow>
   getProp data (js ''detail'') = Inr d \<Longrightarrow> truthyOpt d \<Longrightarrow> errorOrDetail data = Inr d"
  by (simp add: errorOrDetail_def)

lemma errorOrDetail_generic:
  "getProp data (js ''error'') = Inr e \<Longrightarrow> \<not> truthyOpt e \<Longrightarrow>
   getProp data (js ''detail'') = Inr d \<Longrightarrow> \<not> truthyOpt d \<Longrightarrow>
   errorOrDetail data = Inr (Some (JStr genericMessage))"
  by (simp add: errorOrDetail_def)

text \<open>
  An \<^verbatim>\<open>error\<close> that cannot be converted to a string, as in the body
  \<^verbatim>\<open>{"error": {"toString": 1}}\<close>: \<^verbatim>\<open>new Error\<close> throws, and the message shown is that
  of the \<^verbatim>\<open>TypeError\<close>.
\<close>

lemma handleSearch_resume_toString_throws:
  "error (fst (handleSearch_resume
      (Inr \<lparr>status = 404,
            json = Inr (JObj [(js ''error'', JObj [(js ''toString'', JNum (Finite 1))])])\<rparr>) s))
     = Some (EngineText TypeError)"
  by (simp add: handleSearch_resume_def response_json_def nullBodyStatus_def ok_def
      errorOrDetail_def truthyOpt_def catchFinally_def errorMessage_def thrownBuiltin_def)

text \<open>
  Claim C8 as stated, that a response that is not ok shows the generic message unless
  its body has a non-empty \<^verbatim>\<open>error\<close> or \<^verbatim>\<open>detail\<close>, fails in two ways. For the JSON
  body \<^verbatim>\<open>null\<close>, reading \<^verbatim>\<open>data.error\<close> throws, and the message shown is that of the
  \<^verbatim>\<open>TypeError\<close>. For the body \<^verbatim>\<open>{"error": true}\<close>, which has no text in either field,
  the message shown is the string conversion of \<^verbatim>\<open>true\<close>.
\<close>

theorem handleSearch_message_counterexample:
  "\<not> ok \<lparr>status = 404, json = Inr JNull\<rparr>
   \<and> response_json \<lparr>status = 404, json = Inr JNull\<rparr> = Inr JNull
   \<and> error (fst (handleSearch_resume (Inr \<lparr>status = 404, json = Inr JNull\<rparr>) initialState))
       = Some (EngineText TypeError)
   \<and> EngineText TypeError \<noteq> Text genericMessage
   \<and> response_json \<lparr>status = 404, json = Inr errorTruePayload\<rparr> = Inr errorTruePayload
   \<and> getProp errorTruePayload (js ''error'') = Inr (Some (JBool True))
   \<and> getProp errorTruePayload (js ''detail'') = Inr None
   \<and> error (fst (handleSearch_resume (Inr \<lparr>status = 404, json = Inr errorTruePayload\<rparr>) initialState))
       = Some (ToString (JBool True))
   \<and> ToString (JBool True) \<noteq> Text genericMessage"
  by (simp add: handleSearch_resume_def response_json_def nullBodyStatus_def ok_def
      errorOrDetail_def errorTruePayload_def truthyOpt_def catchFinally_def errorMessage_def
      thrownBuiltin_def js_def)

text \<open>
  Claim C8, amended. For a response that is not ok and whose JSON body is not
  \<^verbatim>\<open>null\<close> (its properties can be read): when \<^verbatim>\<open>error\<close> is a non-empty string, the
  message shown is that string; when \<^verbatim>\<open>error\<close> is absent or falsy and \<^verbatim>\<open>detail\<close> is a
  non-empty string, it is that string; when both are absent or falsy, it is
  \<^verbatim>\<open>Failed to fetch results\<close>. A request that fails on the network and a search that
  fails validation show their error's message in the same place.
\<close>

theorem handleSearch_failure_message:
  "(\<not> ok r1 \<and> response_json r1 = Inr d1 \<and> getProp d1 (js ''error'') = Inr (Some (JStr m1))
      \<and> m1 \<noteq> []
    \<longrightarrow> error (fst (handleSearch_resume (Inr r1) s)) = Some (Text m1))
   \<and> (\<not> ok r2 \<and> response_json r2 = Inr d2 \<and> getProp d2 (js ''error'') = Inr e2
       \<and> \<not> truthyOpt e2 \<and> getProp d2 (js ''detail'') = Inr (Some (JStr m2)) \<and> m2 \<noteq> []
    \<longrightarrow> error (fst (handleSearch_resume (Inr r2) s)) = Some (Text m2))
   \<and> (\<not> ok r3 \<and> response_json r3 = Inr d3 \<and> getProp d3 (js ''error'') = Inr e3
       \<and> \<not> truthyOpt e3 \<and> getProp d3 (js ''detail'') = Inr e3' \<and> \<not> truthyOpt e3'
    \<longrightarrow> error (fst (handleSearch_resume (Inr r3) s)) = Some (Text genericMessage))
   \<and> error (fst (handleSearch_resume (Inl b) s)) = Some (EngineText b)
   \<and> (apiPath s4 = Inl err
    \<longrightarrow> error (fst (handleSearch flag net s4)) = Some (errorMessage err))"
proof (intro conjI impI)
  assume h: "\<not> ok r1 \<and> response_json r1 = Inr d1 \<and> getProp d1 (js ''error'') = Inr (Some (JStr m1))
      \<and> m1 \<noteq> []"
  then have "errorOrDetail d1 = Inr (Some (JStr m1))"
    by (intro errorOrDetail_error) (simp_all add: truthyOpt_def)
  with h show "error (fst (handleSearch_resume (Inr r1) s)) = Some (Text m1)"
    by (intro handleSearch_resume_failure [where data = d1 and v = "Some (JStr m1)"]) simp_all
next
  assume h: "\<not> ok r2 \<and> response_json r2 = Inr d2 \<and> getProp d2 (js ''error'') = Inr e2
       \<and> \<not> truthyOpt e2 \<and> getProp d2 (js ''detail'') = Inr (Some (JStr m2)) \<and> m2 \<noteq> []"
  then have "errorOrDetail d2 = Inr (Some (JStr m2))"
    by (intro errorOrDetail_detail [where e = e2]) (simp_all add: truthyOpt_def)
  with h show "error (fst (handleSearch_resume (Inr r2) s)) = Some (Text m2)"
    by (intro handleSearch_resume_failure [where data = d2 and v = "Some (JStr m2)"]) simp_all
next
  assume h: "\<not> ok r3 \<and> response_json r3 = Inr d3 \<and> getProp d3 (js ''error'') = Inr e3
       \<and> \<not> truthyOpt e3 \<and> getProp d3 (js ''detail'') = Inr e3' \<and> \<not> truthyOpt e3'"
  then have "errorOrDetail d3 = Inr (Some (JStr genericMessage))"
    by (intro errorOrDetail_generic [where e = e3 and d = e3']) simp_all
  with h show "error (fst (handleSearch_resume (Inr r3) s)) = Some (Text genericMessage)"
    by (intro handleSearch_resume_failure [where data = d3 and v = "Some (JStr genericMessage)"])
       simp_all
next
  show "error (fst (handleSearch_resume (Inl b) s)) = Some (EngineText b)"
    by (rule handleSearch_resume_rejected)
next
  assume "apiPath s4 = Inl err"
  then show "error (fst (handleSearch flag net s4)) = Some (errorMessage err)"
    by (simp add: handleSearch_invalid)
qed

theorem handleSearch_failure_message_witness:
  "\<not> ok \<lparr>status = 400, json = Inr (errorPayload ''API URL is required'')\<rparr>
   \<and> getProp (errorPayload ''API URL is required'') (js ''error'')
       = Inr (Some (JStr (js ''API URL is required'')))
   \<and> error (fst (handleSearch_resume
         (Inr \<lparr>status = 400, json = Inr (errorPayload ''API URL is required'')\<rparr>) initialState))
       = Some (Text (js ''API URL is required''))
   \<and> getProp notFoundPayload (js ''error'') = Inr None
   \<and> getProp notFoundPayload (js ''detail'') = Inr (Some (JStr (js ''Not Found'')))
   \<and> error (fst (handleSearch_resume (Inr \<lparr>status = 404, json = Inr notFoundPayload\<rparr>) initialState))
       = Some (Text (js ''Not Found''))
   \<and> getProp (JObj []) (js ''error'') = Inr None \<and> getProp (JObj []) (js ''detail'') = Inr None
   \<and> error (fst (handleSearch_resume (Inr \<lparr>status = 500, json = Inr (JObj [])\<rparr>) initialState))
       = Some (Text (js ''Failed to fetch results''))
   \<and> error (fst (handleSearch_resume (Inl TypeError) initialState)) = Some (EngineText TypeError)
   \<and> apiPath initialState = Inl (validationError ''Search query is required'')
   \<and> error (fst (handleSearch True unreachableUpstream initialState))
       = Some (Text (js ''Search query is required''))"
  using handleSearch_failure_message
    [where ?r1.0 = "\<lparr>status = 400, json = Inr (errorPayload ''API URL is required'')\<rparr>"
       and ?d1.0 = "errorPayload ''API URL is required''" and ?m1.0 = "js ''API URL is required''"
       and s = initialState
       and ?r2.0 = "\<lparr>status = 404, json = Inr notFoundPayload\<rparr>" and ?d2.0 = notFoundPayload
       and ?e2.0 = None and ?m2.0 = "js ''Not Found''"
       and ?r3.0 = "\<lparr>status = 500, json = Inr (JObj [])\<rparr>" and ?d3.0 = "JObj []"
       and ?e3.0 = None and e3' = None and b = TypeError
       and ?s4.0 = initialState and err = "validationError ''Search query is required''"
       and flag = True and net = unreachableUpstream]
  by (simp add: ok_def response_json_def nullBodyStatus_def errorPayload_def notFoundPayload_def
      truthyOpt_def genericMessage_def initialState_def apiPath_def trim_def
      errorMessage_validationError js_def)

subsection \<open>What a search leaves on display\<close>

lemma handleSearch_begin_results: "results (fst (handleSearch_begin flag s)) = JNull"
  by (simp add: handleSearch_begin_def catchFinally_def Let_def split: sum.split)

lemma handleSearch_begin_pending:
  "fetches (snd (handleSearch_begin flag s)) = u # us \<Longrightarrow>
   error (fst (handleSearch_begin flag s)) = None \<and> us = []"
  by (auto simp: handleSearch_begin_def catchFinally_def Let_def fetches_append
      split: sum.splits if_splits)

lemma handleSearch_resume_results:
  "results (fst (handleSearch_resume r s)) = results s \<or> error (fst (handleSearch_resume r s)) = error s"
  by (simp add: handleSearch_resume_def catchFinally_def split: sum.split)

lemma handleSearch_alone:
  "results (fst (handleSearch flag net s)) = JNull \<or> error (fst (handleSearch flag net s)) = None"
proof (cases "fetches (snd (handleSearch_begin flag s))")
  case Nil
  then show ?thesis
    by (simp add: handleSearch_unfold handleSearch_begin_results)
next
  case (Cons u us)
  then have "error (fst (handleSearch_begin flag s)) = None"
    by (simp add: handleSearch_begin_pending)
  with handleSearch_resume_results [of "net u" "fst (handleSearch_begin flag s)"] Cons
  show ?thesis
    by (auto simp: handleSearch_unfold handleSearch_begin_results)
qed

lemma encodeURIComponent_cats_path:
  "encodeURIComponent (js ''/ai/v1/artworks/search?q=cats'')
     = Inr (js ''%2Fai%2Fv1%2Fartworks%2Fsearch%3Fq%3Dcats'')"
  by (simp add: string_evals)

lemma apiPath_cats:
  assumes "queryType t = js ''semantic''" and "searchQuery t = js ''cats''"
  shows "apiPath t = Inr (js ''/ai/v1/artworks/search?q=cats'')"
proof -
  have trimmed: "trim (js ''cats'') = js ''cats''"
    by (simp add: js_def trim_def isWhiteSpace_def)
  have "encodeURIComponent (js ''cats'') = Inr (js ''cats'')"
    by (simp add: string_evals)
  with assms trimmed have "apiPath t = Inr (js ''/ai/v1/artworks/search?q='' @ js ''cats'')"
    by (simp add: apiPath_semantic encoded_Inr js_nonempty)
  then show ?thesis
    by (simp add: js_def)
qed

lemma handleSearch_begin_cats:
  assumes "queryType t = js ''semantic''" and "searchQuery t = js ''cats''"
  shows "handleSearch_begin flag t =
     (t\<lparr>results := JNull, loading := True, error := None,
        debugUrl := stripTrailingSlash (apiUrl t) @ js ''/ai/v1/artworks/search?q=cats''\<rparr>,
      (if flag then [PushState (updateUrl t)] else [])
      @ [Fetch (js ''/api/artwork?path=%2Fai%2Fv1%2Fartworks%2Fsearch%3Fq%3Dcats'')])"
proof -
  have "js ''/api/artwork?path='' @ js ''%2Fai%2Fv1%2Fartworks%2Fsearch%3Fq%3Dcats''
      = js ''/api/artwork?path=%2Fai%2Fv1%2Fartworks%2Fsearch%3Fq%3Dcats''"
    by (simp add: js_def)
  with handleSearch_begin_valid [OF apiPath_cats [OF assms] encodeURIComponent_cats_path, of flag]
  show ?thesis by simp
qed

text \<open>
  Claim C10 as stated, that after any search completes at most one of results and error
  is set, fails for two searches that overlap: the second search's result and the first
  search's error are on display together.
\<close>

theorem overlapping_searches_counterexample:
  "run overlapping (catsSearch, [])
     = Some (catsSearch
               \<lparr>results := listPayload, loading := False,
                error := Some (Text (js ''Not Found'')),
                debugUrl := js ''https://api-test.artic.edu/ai/v1/artworks/search?q=cats''\<rparr>, [])
   \<and> listPayload \<noteq> JNull"
  by (simp add: overlapping_def catsSearch_def initialState_def handleSearch_begin_cats
      handleSearch_resume_def response_json_def nullBodyStatus_def ok_def errorOrDetail_def
      notFoundPayload_def listPayload_def truthyOpt_def catchFinally_def errorMessage_def
      js_nonempty stripTrailingSlash_def defaultApiUrl_def js_def)

lemma apiPath_forgets:
  "apiPath (s\<lparr>results := r, error := e, debugUrl := d\<rparr>) = apiPath s"
  unfolding apiPath_def by simp

lemma updateUrl_forgets:
  "updateUrl (s\<lparr>results := r, error := e, debugUrl := d\<rparr>) = updateUrl s"
  unfolding updateUrl_def by simp

lemma handleSearch_begin_forgets:
  "handleSearch_begin flag (s\<lparr>results := r, error := e, debugUrl := d\<rparr>) = handleSearch_begin flag s"
  unfolding handleSearch_begin_def apiPath_forgets updateUrl_forgets by simp

lemma handleSearch_forgets:
  "handleSearch flag net (s\<lparr>results := r, error := e, debugUrl := d\<rparr>) = handleSearch flag net s"
  by (simp add: handleSearch_def handleSearch_begin_forgets)

text \<open>
  Claim C10, amended. Every search clears the results, the error and the debug URL
  before it validates: what they held before has no part in what the search does, and
  the results are \<^verbatim>\<open>null\<close> once its first part has run. After a search that ran with no
  other search in between, the results are \<^verbatim>\<open>null\<close> or the error is \<^verbatim>\<open>null\<close>. A search
  that fails validation ends with the results and the debug URL cleared and the error
  set.
\<close>

theorem handleSearch_display:
  "results (fst (handleSearch_begin flag s)) = JNull
   \<and> (results (fst (handleSearch flag net s)) = JNull \<or> error (fst (handleSearch flag net s)) = None)
   \<and> (apiPath s' = Inl err
       \<longrightarrow> results (fst (handleSearch flag net s')) = JNull
          \<and> debugUrl (fst (handleSearch flag net s')) = []
          \<and> error (fst (handleSearch flag net s')) = Some (errorMessage err))
   \<and> handleSearch flag net (s\<lparr>results := r, error := e, debugUrl := d\<rparr>) = handleSearch flag net s"
  by (simp add: handleSearch_begin_results handleSearch_alone handleSearch_invalid
      handleSearch_forgets)

theorem handleSearch_display_witness:
  "results staleDisplay = listPayload
   \<and> apiPath staleDisplay = Inl (validationError ''Search query is required'')
   \<and> results (fst (handleSearch True unreachableUpstream staleDisplay)) = JNull
   \<and> debugUrl (fst (handleSearch True unreachableUpstream staleDisplay)) = []
   \<and> error (fst (handleSearch True unreachableUpstream staleDisplay))
       = Some (Text (js ''Search query is required''))"
  using handleSearch_display
    [of True staleDisplay unreachableUpstream staleDisplay "validationError ''Search query is required''"]
  by (simp add: staleDisplay_def initialState_def apiPath_def errorMessage_validationError
      trim_def)

subsection \<open>The forwarder\<close>

lemmas url_evals =
  searchParams_def queryOf_def utf8Bytes_def urlencodedParse_def nameValue_def formDecode_def
  utf16Units_def utf8Lead_def isHexDigit_def hexValue_def utf8Encode_def
  isTrailSurrogate_def isLeadSurrogate_def js_def

lemma searchParams_bareRequest: "searchParams (url bareRequest) = []"
  by (simp add: bareRequest_def url_evals)

lemma searchParams_pathOnlyRequest:
  "searchParams (url pathOnlyRequest) = [(js ''path'', js ''/ai/v1/artworks/search?q=cats'')]"
  by (simp add: pathOnlyRequest_def url_evals)

lemma searchParams_fullRequest:
  "searchParams (url fullRequest) =
     [(js ''apiUrl'', js ''https://api-test.artic.edu''),
      (js ''path'', js ''/ai/v1/artworks/search?q=cats'')]"
  by (simp add: fullRequest_def url_evals)

lemma searchParams_emptyPathRequest:
  "searchParams (url emptyPathRequest) = [(js ''path'', [])]"
  by (simp add: emptyPathRequest_def url_evals)

lemma searchParams_emptyApiUrlRequest:
  "searchParams (url emptyApiUrlRequest) =
     [(js ''apiUrl'', []), (js ''path'', js ''/ai/v1/artworks/search?q=cats'')]"
  by (simp add: emptyApiUrlRequest_def url_evals)

lemma reserialised_errorPayload: "reserialised (errorPayload m) = errorPayload m"
  by (simp add: errorPayload_def)

lemma NextResponse_json_errorPayload:
  "NextResponse_json (errorPayload m) 400 = Inr \<lparr>status = 400, json = Inr (errorPayload m)\<rparr>"
  "NextResponse_json (errorPayload m) 500 = Inr \<lparr>status = 500, json = Inr (errorPayload m)\<rparr>"
  by (simp_all add: NextResponse_json_def nullBodyStatus_def reserialised_errorPayload)

lemma GET_of_try:
  "GET upstream req =
     (case GET_try upstream req of
        (Inl b, sent) \<Rightarrow>
          (Inr \<lparr>status = 500, json = Inr (errorPayload ''Failed to fetch results'')\<rparr>, sent)
      | (Inr resp, sent) \<Rightarrow> (Inr resp, sent))"
  unfolding GET_def NextResponse_json_errorPayload by (rule refl)

lemma GET_try_missing_path:
  "missing (searchParams_get (searchParams (url req)) (js ''path'')) \<Longrightarrow>
   GET_try upstream req = (Inr \<lparr>status = 400, json = Inr (errorPayload ''Path is required'')\<rparr>, [])"
  by (simp add: GET_try_def NextResponse_json_errorPayload)

lemma GET_try_missing_apiUrl:
  "\<not> missing (searchParams_get (searchParams (url req)) (js ''path'')) \<Longrightarrow>
   missing (searchParams_get (searchParams (url req)) (js ''apiUrl'')) \<Longrightarrow>
   GET_try upstream req
     = (Inr \<lparr>status = 400, json = Inr (errorPayload ''API URL is required'')\<rparr>, [])"
  by (simp add: GET_try_def NextResponse_json_errorPayload)

lemma GET_try_forward:
  "searchParams_get (searchParams (url req)) (js ''path'') = Some p \<Longrightarrow> p \<noteq> [] \<Longrightarrow>
   searchParams_get (searchParams (url req)) (js ''apiUrl'') = Some b \<Longrightarrow> b \<noteq> [] \<Longrightarrow>
   GET_try upstream req =
     (case upstream (b @ p) of
        Inl e \<Rightarrow> (Inl e, [b @ p])
      | Inr resp \<Rightarrow>
          (case response_json resp of
             Inl e \<Rightarrow> (Inl e, [b @ p])
           | Inr data \<Rightarrow>
               if \<not> ok resp then (NextResponse_json data (status resp), [b @ p])
               else (NextResponse_json data 200, [b @ p])))"
  by (simp add: GET_try_def missing_def templated_def Let_def)

lemma fullRequest_params:
  "searchParams_get (searchParams (url fullRequest)) (js ''path'')
     = Some (js ''/ai/v1/artworks/search?q=cats'')"
  "searchParams_get (searchParams (url fullRequest)) (js ''apiUrl'')
     = Some (js ''https://api-test.artic.edu'')"
  by (simp_all add: searchParams_fullRequest searchParams_get_def js_def)

lemma fullRequest_target:
  "js ''https://api-test.artic.edu'' @ js ''/ai/v1/artworks/search?q=cats''
     = js ''https://api-test.artic.edu/ai/v1/artworks/search?q=cats''"
  by (simp add: js_def)

text \<open>
  Claim C4 as stated, that a request which has \<^verbatim>\<open>path\<close> and lacks \<^verbatim>\<open>apiUrl\<close> is
  answered with \<^verbatim>\<open>API URL is required\<close>, fails for a path that is present and empty:
  the request \<^verbatim>\<open>/api/artwork?path=\<close> is answered with \<^verbatim>\<open>Path is required\<close>.
\<close>

theorem GET_empty_path_counterexample:
  "searchParams_get (searchParams (url emptyPathRequest)) (js ''path'') = Some []
   \<and> searchParams_get (searchParams (url emptyPathRequest)) (js ''apiUrl'') = None
   \<and> GET unreachableUpstream emptyPathRequest
       = (Inr \<lparr>status = 400, json = Inr (errorPayload ''Path is required'')\<rparr>, [])"
proof -
  have params: "searchParams_get (searchParams (url emptyPathRequest)) (js ''path'') = Some []"
    "searchParams_get (searchParams (url emptyPathRequest)) (js ''apiUrl'') = None"
    by (simp_all add: searchParams_emptyPathRequest searchParams_get_def js_def)
  then have "GET_try unreachableUpstream emptyPathRequest
      = (Inr \<lparr>status = 400, json = Inr (errorPayload ''Path is required'')\<rparr>, [])"
    by (intro GET_try_missing_path) (simp add: missing_def)
  with params show ?thesis
    by (simp add: GET_of_try)
qed

text \<open>
  Claim C4, amended. A request whose \<^verbatim>\<open>path\<close> parameter is missing or empty is
  answered with status 400 and the payload \<^verbatim>\<open>{error: 'Path is required'}\<close>, and no
  outbound request is sent; a request with a non-empty path whose \<^verbatim>\<open>apiUrl\<close> parameter
  is missing or empty is answered with status 400 and
  \<^verbatim>\<open>{error: 'API URL is required'}\<close>, and no outbound request is sent.
\<close>

theorem GET_missing_parameter:
  "(searchParams_get (searchParams (url r1)) (js ''path'') = None
      \<or> searchParams_get (searchParams (url r1)) (js ''path'') = Some []
    \<longrightarrow> GET upstream r1 = (Inr \<lparr>status = 400, json = Inr (errorPayload ''Path is required'')\<rparr>, []))
   \<and> (searchParams_get (searchParams (url r2)) (js ''path'') = Some p \<and> p \<noteq> []
       \<and> (searchParams_get (searchParams (url r2)) (js ''apiUrl'') = None
            \<or> searchParams_get (searchParams (url r2)) (js ''apiUrl'') = Some [])
    \<longrightarrow> GET upstream r2 = (Inr \<lparr>status = 400, json = Inr (errorPayload ''API URL is required'')\<rparr>, []))"
proof (intro conjI impI)
  assume "searchParams_get (searchParams (url r1)) (js ''path'') = None
      \<or> searchParams_get (searchParams (url r1)) (js ''path'') = Some []"
  then have "missing (searchParams_get (searchParams (url r1)) (js ''path''))"
    by (auto simp: missing_def)
  then show "GET upstream r1
      = (Inr \<lparr>status = 400, json = Inr (errorPayload ''Path is required'')\<rparr>, [])"
    by (simp add: GET_of_try GET_try_missing_path)
next
  assume h: "searchParams_get (searchParams (url r2)) (js ''path'') = Some p \<and> p \<noteq> []
       \<and> (searchParams_get (searchParams (url r2)) (js ''apiUrl'') = None
            \<or> searchParams_get (searchParams (url r2)) (js ''apiUrl'') = Some [])"
  then have "\<not> missing (searchParams_get (searchParams (url r2)) (js ''path''))"
    and "missing (searchParams_get (searchParams (url r2)) (js ''apiUrl''))"
    by (auto simp: missing_def)
  then show "GET upstream r2
      = (Inr \<lparr>status = 400, json = Inr (errorPayload ''API URL is required'')\<rparr>, [])"
    by (simp add: GET_of_try GET_try_missing_apiUrl)
qed

theorem GET_missing_parameter_witness:
  "searchParams_get (searchParams (url bareRequest)) (js ''path'') = None
   \<and> GET unreachableUpstream bareRequest
       = (Inr \<lparr>status = 400, json = Inr (errorPayload ''Path is required'')\<rparr>, [])
   \<and> searchParams_get (searchParams (url emptyPathRequest)) (js ''path'') = Some []
   \<and> GET unreachableUpstream emptyPathRequest
       = (Inr \<lparr>status = 400, json = Inr (errorPayload ''Path is required'')\<rparr>, [])
   \<and> searchParams_get (searchParams (url pathOnlyRequest)) (js ''path'')
       = Some (js ''/ai/v1/artworks/search?q=cats'')
   \<and> js ''/ai/v1/artworks/search?q=cats'' \<noteq> []
   \<and> searchParams_get (searchParams (url pathOnlyRequest)) (js ''apiUrl'') = None
   \<and> GET unreachableUpstream pathOnlyRequest
       = (Inr \<lparr>status = 400, json = Inr (errorPayload ''API URL is required'')\<rparr>, [])
   \<and> searchParams_get (searchParams (url emptyApiUrlRequest)) (js ''path'')
       = Some (js ''/ai/v1/artworks/search?q=cats'')
   \<and> searchParams_get (searchParams (url emptyApiUrlRequest)) (js ''apiUrl'') = Some []
   \<and> GET unreachableUpstream emptyApiUrlRequest
       = (Inr \<lparr>status = 400, json = Inr (errorPayload ''API URL is required'')\<rparr>, [])"
  using
    GET_missing_parameter
      [of bareRequest unreachableUpstream pathOnlyRequest "js ''/ai/v1/artworks/search?q=cats''"]
    GET_missing_parameter
      [of emptyPathRequest unreachableUpstream emptyApiUrlRequest
          "js ''/ai/v1/artworks/search?q=cats''"]
  by (simp add: searchParams_bareRequest searchParams_pathOnlyRequest
      searchParams_emptyPathRequest searchParams_emptyApiUrlRequest searchParams_get_def js_def)

text \<open>
  Claim C5 as stated, that every upstream response with a status outside 200 to 299 and
  a JSON body is relayed with its status and body unchanged, fails in two ways. A
  response cannot be built with the status 600: the error is caught and the answer is
  the 500. And the body is written again from the parsed value: upstream's
  \<^verbatim>\<open>{"x": 1e400}\<close> is answered as \<^verbatim>\<open>{"x": null}\<close>.
\<close>

theorem GET_relay_counterexample:
  "\<not> ok \<lparr>status = 600, json = Inr notFoundPayload\<rparr>
   \<and> response_json \<lparr>status = 600, json = Inr notFoundPayload\<rparr> = Inr notFoundPayload
   \<and> outOfRangeUpstream (js ''https://api-test.artic.edu/ai/v1/artworks/search?q=cats'')
       = Inr \<lparr>status = 600, json = Inr notFoundPayload\<rparr>
   \<and> GET outOfRangeUpstream fullRequest
       = (Inr \<lparr>status = 500, json = Inr (errorPayload ''Failed to fetch results'')\<rparr>,
          [js ''https://api-test.artic.edu/ai/v1/artworks/search?q=cats''])
   \<and> overflowUpstream (js ''https://api-test.artic.edu/ai/v1/artworks/search?q=cats'')
       = Inr \<lparr>status = 404, json = Inr (JObj [(js ''x'', JNum PositiveInfinity)])\<rparr>
   \<and> GET overflowUpstream fullRequest
       = (Inr \<lparr>status = 404, json = Inr (JObj [(js ''x'', JNull)])\<rparr>,
          [js ''https://api-test.artic.edu/ai/v1/artworks/search?q=cats''])"
proof -
  let ?b = "js ''https://api-test.artic.edu''"
  let ?p = "js ''/ai/v1/artworks/search?q=cats''"
  have "GET_try outOfRangeUpstream fullRequest = (Inl RangeError, [?b @ ?p])"
    by (subst GET_try_forward [where p = ?p and b = ?b])
       (simp_all add: fullRequest_params js_nonempty outOfRangeUpstream_def response_json_def
          nullBodyStatus_def ok_def NextResponse_json_def)
  moreover have "GET_try overflowUpstream fullRequest
      = (Inr \<lparr>status = 404, json = Inr (JObj [(js ''x'', JNull)])\<rparr>, [?b @ ?p])"
    by (subst GET_try_forward [where p = ?p and b = ?b])
       (simp_all add: fullRequest_params js_nonempty overflowUpstream_def response_json_def
          nullBodyStatus_def ok_def NextResponse_json_def)
  ultimately show ?thesis
    by (simp add: GET_of_try fullRequest_target outOfRangeUpstream_def overflowUpstream_def
        notFoundPayload_def response_json_def nullBodyStatus_def ok_def)
qed

text \<open>
  Claim C5, amended. When the upstream response has a status from 300 to 599 and a body
  that parses as JSON, the forwarder's response has the same status, and its body is
  the parsed value written again by \<^verbatim>\<open>JSON.stringify\<close>: the same value, but for a number
  that overflowed to an infinity, which becomes \<^verbatim>\<open>null\<close>, and the sign of a zero.
\<close>

theorem GET_relays_failure:
  assumes "searchParams_get (searchParams (url req)) (js ''path'') = Some p" and "p \<noteq> []"
    and "searchParams_get (searchParams (url req)) (js ''apiUrl'') = Some b" and "b \<noteq> []"
    and "upstream (b @ p) = Inr resp" and "\<not> ok resp"
    and "200 \<le> status resp" and "status resp \<le> 599"
    and "response_json resp = Inr data"
  shows "GET upstream req = (Inr \<lparr>status = status resp, json = Inr (reserialised data)\<rparr>, [b @ p])"
proof -
  from assms(9) have "\<not> nullBodyStatus (status resp)"
    by (auto simp: response_json_def split: if_splits)
  with assms(7,8) have "NextResponse_json data (status resp)
      = Inr \<lparr>status = status resp, json = Inr (reserialised data)\<rparr>"
    by (simp add: NextResponse_json_def)
  with assms show ?thesis
    by (simp add: GET_of_try GET_try_forward)
qed

theorem GET_relays_failure_witness:
  "\<not> ok \<lparr>status = 404, json = Inr (JObj [(js ''detail'', JStr (js ''Not Found''))])\<rparr>
   \<and> response_json \<lparr>status = 404, json = Inr (JObj [(js ''detail'', JStr (js ''Not Found''))])\<rparr>
       = Inr (JObj [(js ''detail'', JStr (js ''Not Found''))])
   \<and> GET notFoundUpstream fullRequest
       = (Inr \<lparr>status = 404, json = Inr (JObj [(js ''detail'', JStr (js ''Not Found''))])\<rparr>,
          [js ''https://api-test.artic.edu/ai/v1/artworks/search?q=cats''])"
proof -
  let ?data = "JObj [(js ''detail'', JStr (js ''Not Found''))]"
  let ?resp = "\<lparr>status = 404, json = Inr ?data\<rparr>"
  let ?b = "js ''https://api-test.artic.edu''"
  let ?p = "js ''/ai/v1/artworks/search?q=cats''"
  have failed: "\<not> ok ?resp"
    by (simp add: ok_def)
  have parsed: "response_json ?resp = Inr ?data"
    by (simp add: response_json_def nullBodyStatus_def)
  have "GET notFoundUpstream fullRequest
      = (Inr \<lparr>status = status ?resp, json = Inr (reserialised ?data)\<rparr>, [?b @ ?p])"
    by (rule GET_relays_failure [where p = ?p and b = ?b and resp = ?resp and data = ?data])
       (simp_all add: fullRequest_params notFoundUpstream_def ok_def js_nonempty
          response_json_def nullBodyStatus_def)
  with failed parsed show ?thesis
    by (simp add: fullRequest_target)
qed

lemma NextResponse_json_200: "\<exists>body. NextResponse_json data 200 = Inr \<lparr>status = 200, json = body\<rparr>"
  by (simp add: NextResponse_json_def nullBodyStatus_def)

lemma GET_total: "\<exists>resp sent. GET upstream req = (Inr resp, sent)"
  by (cases "GET_try upstream req" rule: prod.exhaust; cases "fst (GET_try upstream req)")
     (auto simp: GET_of_try)

lemma GET_try_throws:
  assumes "searchParams_get (searchParams (url req)) (js ''path'') = Some p" and "p \<noteq> []"
    and "searchParams_get (searchParams (url req)) (js ''apiUrl'') = Some b" and "b \<noteq> []"
    and "upstream (b @ p) = Inl e
         \<or> (\<exists>resp. upstream (b @ p) = Inr resp \<and> response_json resp = Inl e)"
  shows "GET_try upstream req = (Inl e, [b @ p])"
  using assms by (auto simp: GET_try_forward)

lemma response_json_rejects: "json resp = Inl e \<Longrightarrow> \<exists>e'. response_json resp = Inl e'"
  by (simp add: response_json_def)

text \<open>
  Claim C6. The handler returns a response on every input: no error leaves it. When the
  outbound \<^verbatim>\<open>fetch\<close> rejects, or the upstream body does not parse as JSON, the response
  has status 500 and the payload \<^verbatim>\<open>{error: 'Failed to fetch results'}\<close>.
\<close>

theorem GET_catches:
  "(\<exists>resp sent. GET upstream r0 = (Inr resp, sent))
   \<and> (searchParams_get (searchParams (url req)) (js ''path'') = Some p \<and> p \<noteq> []
       \<and> searchParams_get (searchParams (url req)) (js ''apiUrl'') = Some b \<and> b \<noteq> []
       \<and> (upstream' (b @ p) = Inl e
            \<or> (\<exists>resp. upstream' (b @ p) = Inr resp \<and> json resp = Inl e))
      \<longrightarrow> GET upstream' req
            = (Inr \<lparr>status = 500, json = Inr (errorPayload ''Failed to fetch results'')\<rparr>,
               [b @ p]))"
proof (intro conjI impI)
  show "\<exists>resp sent. GET upstream r0 = (Inr resp, sent)"
    by (rule GET_total)
next
  assume h: "searchParams_get (searchParams (url req)) (js ''path'') = Some p \<and> p \<noteq> []
       \<and> searchParams_get (searchParams (url req)) (js ''apiUrl'') = Some b \<and> b \<noteq> []
       \<and> (upstream' (b @ p) = Inl e
            \<or> (\<exists>resp. upstream' (b @ p) = Inr resp \<and> json resp = Inl e))"
  then have "\<exists>e'. upstream' (b @ p) = Inl e'
      \<or> (\<exists>resp. upstream' (b @ p) = Inr resp \<and> response_json resp = Inl e')"
    using response_json_rejects by blast
  then obtain e' where "upstream' (b @ p) = Inl e'
      \<or> (\<exists>resp. upstream' (b @ p) = Inr resp \<and> response_json resp = Inl e')"
    by blast
  with h have "GET_try upstream' req = (Inl e', [b @ p])"
    by (intro GET_try_throws) simp_all
  then show "GET upstream' req
      = (Inr \<lparr>status = 500, json = Inr (errorPayload ''Failed to fetch results'')\<rparr>, [b @ p])"
    by (simp add: GET_of_try)
qed

theorem GET_catches_witness:
  "unreachableUpstream (js ''https://api-test.artic.edu/ai/v1/artworks/search?q=cats'') = Inl TypeError
   \<and> GET unreachableUpstream fullRequest
       = (Inr \<lparr>status = 500, json = Inr (errorPayload ''Failed to fetch results'')\<rparr>,
          [js ''https://api-test.artic.edu/ai/v1/artworks/search?q=cats''])
   \<and> noContentUpstream (js ''https://api-test.artic.edu/ai/v1/artworks/search?q=cats'')
       = Inr \<lparr>status = 204, json = Inl SyntaxError\<rparr>
   \<and> GET noContentUpstream fullRequest
       = (Inr \<lparr>status = 500, json = Inr (errorPayload ''Failed to fetch results'')\<rparr>,
          [js ''https://api-test.artic.edu/ai/v1/artworks/search?q=cats''])"
proof -
  let ?b = "js ''https://api-test.artic.edu''"
  let ?p = "js ''/ai/v1/artworks/search?q=cats''"
  let ?r500 = "\<lparr>status = 500, json = Inr (errorPayload ''Failed to fetch results'')\<rparr>"
  have pre: "searchParams_get (searchParams (url fullRequest)) (js ''path'') = Some ?p \<and> ?p \<noteq> []
      \<and> searchParams_get (searchParams (url fullRequest)) (js ''apiUrl'') = Some ?b \<and> ?b \<noteq> []"
    by (simp add: fullRequest_params js_nonempty)
  have "GET unreachableUpstream fullRequest = (Inr ?r500, [?b @ ?p])"
    using GET_catches [where req = fullRequest and p = ?p and b = ?b
        and upstream' = unreachableUpstream and e = TypeError] pre
    by (simp add: unreachableUpstream_def)
  moreover have "GET noContentUpstream fullRequest = (Inr ?r500, [?b @ ?p])"
    using GET_catches [where req = fullRequest and p = ?p and b = ?b
        and upstream' = noContentUpstream and e = SyntaxError] pre
    by (simp add: noContentUpstream_def)
  ultimately show ?thesis
    by (simp add: fullRequest_target unreachableUpstream_def noContentUpstream_def)
qed

text \<open>
  Claim C9 as stated, that every upstream response with a status from 200 to 299 is
  answered with status 200, fails for a success without a JSON body: upstream answers
  204, \<^verbatim>\<open>response.json()\<close> rejects, and the forwarder answers 500.
\<close>

theorem GET_no_content_counterexample:
  "ok \<lparr>status = 204, json = Inl SyntaxError\<rparr>
   \<and> noContentUpstream (js ''https://api-test.artic.edu/ai/v1/artworks/search?q=cats'')
       = Inr \<lparr>status = 204, json = Inl SyntaxError\<rparr>
   \<and> GET noContentUpstream fullRequest
       = (Inr \<lparr>status = 500, json = Inr (errorPayload ''Failed to fetch results'')\<rparr>,
          [js ''https://api-test.artic.edu/ai/v1/artworks/search?q=cats''])"
proof -
  let ?b = "js ''https://api-test.artic.edu''"
  let ?p = "js ''/ai/v1/artworks/search?q=cats''"
  have "GET_try noContentUpstream fullRequest = (Inl SyntaxError, [?b @ ?p])"
    by (rule GET_try_throws [where p = ?p and b = ?b])
       (simp_all add: fullRequest_params js_nonempty noContentUpstream_def response_json_def)
  then show ?thesis
    by (simp add: GET_of_try fullRequest_target ok_def noContentUpstream_def)
qed

text \<open>
  Claim C9, amended. When the upstream response has a status from 200 to 299 and a body
  that parses as JSON, the forwarder answers with status 200, whatever the exact
  upstream status (a 201 is not mirrored).
\<close>

theorem GET_flattens_success:
  assumes "searchParams_get (searchParams (url req)) (js ''path'') = Some p" and "p \<noteq> []"
    and "searchParams_get (searchParams (url req)) (js ''apiUrl'') = Some b" and "b \<noteq> []"
    and "upstream (b @ p) = Inr resp" and "ok resp" and "response_json resp = Inr data"
  shows "\<exists>body. GET upstream req = (Inr \<lparr>status = 200, json = body\<rparr>, [b @ p])"
  using assms NextResponse_json_200 [of data]
  by (auto simp: GET_of_try GET_try_forward)

theorem GET_flattens_success_witness:
  "ok \<lparr>status = 201, json = Inr (JObj [(js ''items'', JArr [])])\<rparr>
   \<and> response_json \<lparr>status = 201, json = Inr (JObj [(js ''items'', JArr [])])\<rparr>
       = Inr (JObj [(js ''items'', JArr [])])
   \<and> createdUpstream (js ''https://api-test.artic.edu/ai/v1/artworks/search?q=cats'')
       = Inr \<lparr>status = 201, json = Inr (JObj [(js ''items'', JArr [])])\<rparr>
   \<and> GET createdUpstream fullRequest
       = (Inr \<lparr>status = 200, json = Inr (JObj [(js ''items'', JArr [])])\<rparr>,
          [js ''https://api-test.artic.edu/ai/v1/artworks/search?q=cats''])"
proof -
  let ?data = "JObj [(js ''items'', JArr [])]"
  let ?resp = "\<lparr>status = 201, json = Inr ?data\<rparr>"
  let ?b = "js ''https://api-test.artic.edu''"
  let ?p = "js ''/ai/v1/artworks/search?q=cats''"
  have fine: "ok ?resp"
    by (simp add: ok_def)
  have parsed: "response_json ?resp = Inr ?data"
    by (simp add: response_json_def nullBodyStatus_def)
  have sent: "createdUpstream (?b @ ?p) = Inr ?resp"
    by (simp add: createdUpstream_def)
  from GET_flattens_success [where req = fullRequest and upstream = createdUpstream,
      OF fullRequest_params(1) js_nonempty fullRequest_params(2) js_nonempty sent fine parsed]
  obtain body where answer: "GET createdUpstream fullRequest
      = (Inr \<lparr>status = 200, json = body\<rparr>, [?b @ ?p])"
    by blast
  have "GET_try createdUpstream fullRequest
      = (Inr \<lparr>status = 200, json = Inr ?data\<rparr>, [?b @ ?p])"
    by (subst GET_try_forward [where p = ?p and b = ?b])
       (simp_all add: fullRequest_params js_nonempty createdUpstream_def response_json_def
          nullBodyStatus_def ok_def NextResponse_json_def)
  with answer have "body = Inr ?data"
    by (simp add: GET_of_try)
  with answer fine parsed show ?thesis
    by (simp add: fullRequest_target createdUpstream_def)
qed

subsection \<open>Rendering\<close>




subsection \<open>Every search the controller sends is refused by the forwarder\<close>

text \<open>The characters \<^verbatim>\<open>encodeURIComponent\<close> writes.\<close>

lemma uriUnescaped_hexDigit: "uriUnescaped (hexDigit n)"
proof -
  have "\<forall>x \<in> set (js ''0123456789ABCDEF''). uriUnescaped x"
    by (simp add: js_def uriUnescaped_def)
  moreover have "n mod 16 < length (js ''0123456789ABCDEF'')"
    by (simp add: js_def)
  ultimately show ?thesis
    unfolding hexDigit_def using nth_mem by blast
qed

lemma escapeCodePoint_chars: "c \<in> set (escapeCodePoint cp) \<Longrightarrow> uriUnescaped c \<or> c = 0x25"
  by (auto simp: escapeCodePoint_def percentEscape_def uriUnescaped_hexDigit split: if_splits)

lemma escapeCodePoint_nonempty: "escapeCodePoint cp \<noteq> []"
  by (simp add: escapeCodePoint_def utf8Encode_def percentEscape_def)

lemma encodeURIComponent_chars:
  "encodeURIComponent s = Inr e \<Longrightarrow> c \<in> set e \<Longrightarrow> uriUnescaped c \<or> c = 0x25"
proof (induction s arbitrary: e rule: encodeURIComponent.induct)
  case 1
  then show ?case by simp
next
  case (2 x xs)
  show ?case
  proof (cases "uriUnescaped x")
    case True
    with 2 show ?thesis
      by (cases "encodeURIComponent xs") auto
  next
    case False
    show ?thesis
    proof (cases "isLeadSurrogate x")
      case True
      with False 2(4) obtain d ds where xs: "xs = d # ds" and "isTrailSurrogate d" and "\<not> isTrailSurrogate x"
        by (cases xs) (auto split: if_splits)
      with False True 2(2) [of d ds] 2(4,5) show ?thesis
        by (cases "encodeURIComponent ds") (auto dest: escapeCodePoint_chars)
    next
      case nl: False
      with False 2(3) 2(4,5) show ?thesis
        by (cases "encodeURIComponent xs") (auto dest: escapeCodePoint_chars split: if_splits)
    qed
  qed
qed

lemma encodeURIComponent_nonempty: "encodeURIComponent (x # xs) = Inr e \<Longrightarrow> e \<noteq> []"
proof (cases "uriUnescaped x")
  case True
  assume "encodeURIComponent (x # xs) = Inr e"
  with True show ?thesis
    by (cases "encodeURIComponent xs") auto
next
  case False
  assume enc: "encodeURIComponent (x # xs) = Inr e"
  show ?thesis
  proof (cases "isLeadSurrogate x")
    case True
    with False enc obtain d ds where "xs = d # ds" and "isTrailSurrogate d" and "\<not> isTrailSurrogate x"
      by (cases xs) (auto split: if_splits)
    with False True enc show ?thesis
      by (cases "encodeURIComponent ds") (auto simp: escapeCodePoint_nonempty)
  next
    case nl: False
    with False enc show ?thesis
      by (cases "encodeURIComponent xs") (auto simp: escapeCodePoint_nonempty split: if_splits)
  qed
qed

lemma escaped_char_plain:
  assumes "uriUnescaped c \<or> c = 0x25"
  shows "c \<noteq> 0x26" and "c \<noteq> 0x23" and "c \<noteq> 0x3F" and "c \<noteq> 0x3D" and "unat c < 0x80"
  using assms by (auto simp: uriUnescaped_def js_def)

text \<open>The query parameters of the URL the controller fetches.\<close>

lemma ascii_not_surrogate:
  "unat c < 0x80 \<Longrightarrow> \<not> isLeadSurrogate c \<and> \<not> isTrailSurrogate c"
  by (simp add: isLeadSurrogate_def isTrailSurrogate_def word_le_nat_alt)

lemma codePoints_ascii: "\<forall>c \<in> set s. unat c < 0x80 \<Longrightarrow> codePoints s = map unat s"
  by (induction s) (simp_all add: ascii_not_surrogate)

lemma utf8Bytes_ascii: "\<forall>c \<in> set s. unat c < 0x80 \<Longrightarrow> utf8Bytes s = map unat s"
proof -
  assume ascii: "\<forall>c \<in> set s. unat c < 0x80"
  then have "concat (map utf8Encode (map unat s)) = map unat s"
    by (induction s) (simp_all add: utf8Encode_def)
  with ascii show ?thesis
    by (simp add: utf8Bytes_def codePoints_ascii)
qed

lemma splitOn_absent: "sep \<notin> set xs \<Longrightarrow> splitOn sep xs = [xs]"
  by (induction xs) auto

lemma utf8Lead_needed: "utf8Lead b = Inr (n, c, l, h) \<Longrightarrow> n \<noteq> 0"
  by (auto simp: utf8Lead_def split: if_splits)

lemma utf8Decode_nonempty:
  "needed \<noteq> 0 \<or> bs \<noteq> [] \<Longrightarrow> utf8Decode needed cp lo hi bs \<noteq> []"
proof (induction bs arbitrary: needed cp lo hi)
  case Nil
  then show ?case by simp
next
  case (Cons b bs)
  show ?case
  proof (cases "utf8Lead b")
    case (Inl c)
    then show ?thesis
      using Cons.IH [of "needed - 1" "cp * 0x40 + (b - 0x80)" "0x80" "0xBF"] by auto
  next
    case (Inr st)
    obtain n c l h where st: "st = (n, c, l, h)"
      by (cases st) auto
    with Inr have "n \<noteq> 0"
      by (auto dest: utf8Lead_needed)
    with Inr st show ?thesis
      using Cons.IH [of n c l h] Cons.IH [of "needed - 1" "cp * 0x40 + (b - 0x80)" "0x80" "0xBF"]
      by auto
  qed
qed

lemma percentDecode_nonempty: "bs \<noteq> [] \<Longrightarrow> percentDecode bs \<noteq> []"
  by (cases bs) (auto split: list.splits)

lemma utf16Units_concat_nonempty: "cps \<noteq> [] \<Longrightarrow> concat (map utf16Units cps) \<noteq> []"
  by (cases cps) (auto simp: utf16Units_def)

lemma formDecode_nonempty: "bs \<noteq> [] \<Longrightarrow> formDecode bs \<noteq> []"
  unfolding formDecode_def
  by (intro utf16Units_concat_nonempty utf8Decode_nonempty disjI2 percentDecode_nonempty) simp

lemma formDecode_path: "formDecode [0x70, 0x61, 0x74, 0x68] = js ''path''"
  by (simp add: formDecode_def utf8Lead_def utf16Units_def js_def)

lemma queryOf_dispatched:
  assumes "0x3F \<notin> set origin" and "0x23 \<notin> set origin" and "0x23 \<notin> set e"
  shows "queryOf (origin @ js ''/api/artwork?path='' @ e) = js ''path='' @ e"
proof -
  have "0x23 \<notin> set (origin @ js ''/api/artwork?path='' @ e)"
    using assms by (simp add: js_def)
  then have whole: "takeWhile (\<lambda>c. c \<noteq> 0x23) (origin @ js ''/api/artwork?path='' @ e)
      = origin @ js ''/api/artwork?path='' @ e"
    by (subst takeWhile_eq_all_conv) auto
  have "dropWhile (\<lambda>c. c \<noteq> 0x3F) (origin @ js ''/api/artwork?path='' @ e)
      = dropWhile (\<lambda>c. c \<noteq> 0x3F) (js ''/api/artwork?path='' @ e)"
    using assms(1) by (intro dropWhile_append2) auto
  also have "\<dots> = 0x3F # js ''path='' @ e"
    by (simp add: js_def)
  finally show ?thesis
    by (simp add: queryOf_def whole)
qed

lemma unat_differs: "(c :: 16 word) \<noteq> of_nat n \<Longrightarrow> unat c \<noteq> n"
  by auto

lemma searchParams_dispatched:
  assumes origin: "0x3F \<notin> set origin" "0x23 \<notin> set origin"
    and chars: "\<forall>c \<in> set e. uriUnescaped c \<or> c = 0x25"
    and nonempty: "e \<noteq> []"
  shows "\<exists>v. v \<noteq> [] \<and> searchParams (origin @ js ''/api/artwork?path='' @ e) = [(js ''path'', v)]"
proof -
  let ?bytes = "[0x70, 0x61, 0x74, 0x68, 0x3D] @ map unat e"
  from chars have no_hash: "0x23 \<notin> set e"
    using escaped_char_plain(2) by blast
  have query: "queryOf (origin @ js ''/api/artwork?path='' @ e) = js ''path='' @ e"
    using origin no_hash by (rule queryOf_dispatched)
  from chars have ascii: "\<forall>c \<in> set e. unat c < 0x80"
    using escaped_char_plain(5) by blast
  then have "\<forall>c \<in> set (js ''path='' @ e). unat c < 0x80"
    by (simp add: js_def)
  then have "utf8Bytes (js ''path='' @ e) = map unat (js ''path='' @ e)"
    by (rule utf8Bytes_ascii)
  then have bytes: "utf8Bytes (js ''path='' @ e) = ?bytes"
    by (simp add: js_def)
  have "\<forall>c \<in> set e. unat c \<noteq> 0x26"
  proof
    fix c assume "c \<in> set e"
    with chars have "c \<noteq> of_nat 0x26"
      using escaped_char_plain(1) [of c] by simp
    then show "unat c \<noteq> 0x26"
      by (rule unat_differs)
  qed
  then have "0x26 \<notin> set ?bytes"
    by auto
  then have "splitOn 0x26 ?bytes = [?bytes]"
    by (rule splitOn_absent)
  then have parsed: "urlencodedParse ?bytes = [nameValue ?bytes]"
    by (simp add: urlencodedParse_def)
  have pair: "nameValue ?bytes = (js ''path'', formDecode (map unat e))"
    by (simp add: nameValue_def formDecode_path)
  from nonempty have "formDecode (map unat e) \<noteq> []"
    by (intro formDecode_nonempty) simp
  with query bytes parsed pair show ?thesis
    by (simp add: searchParams_def)
qed

lemma GET_dispatched:
  assumes "0x3F \<notin> set origin" and "0x23 \<notin> set origin"
    and "\<forall>c \<in> set e. uriUnescaped c \<or> c = 0x25" and "e \<noteq> []"
  shows "searchParams_get (searchParams (origin @ js ''/api/artwork?path='' @ e)) (js ''apiUrl'') = None"
    and "GET upstream \<lparr>url = origin @ js ''/api/artwork?path='' @ e\<rparr>
      = (Inr \<lparr>status = 400, json = Inr (errorPayload ''API URL is required'')\<rparr>, [])"
proof -
  from searchParams_dispatched [OF assms] obtain v where v: "v \<noteq> []"
    and params: "searchParams (origin @ js ''/api/artwork?path='' @ e) = [(js ''path'', v)]"
    by blast
  have differ: "js ''apiUrl'' \<noteq> js ''path''"
    by (simp add: js_def)
  from params differ
  show none: "searchParams_get (searchParams (origin @ js ''/api/artwork?path='' @ e)) (js ''apiUrl'') = None"
    by (simp add: searchParams_get_def)
  from params v
  have "\<not> missing (searchParams_get (searchParams (url \<lparr>url = origin @ js ''/api/artwork?path='' @ e\<rparr>))
      (js ''path''))"
    by (simp add: searchParams_get_def missing_def)
  moreover from none
  have "missing (searchParams_get (searchParams (url \<lparr>url = origin @ js ''/api/artwork?path='' @ e\<rparr>))
      (js ''apiUrl''))"
    by (simp add: missing_def)
  ultimately
  have "GET_try upstream \<lparr>url = origin @ js ''/api/artwork?path='' @ e\<rparr>
      = (Inr \<lparr>status = 400, json = Inr (errorPayload ''API URL is required'')\<rparr>, [])"
    by (rule GET_try_missing_apiUrl)
  then show "GET upstream \<lparr>url = origin @ js ''/api/artwork?path='' @ e\<rparr>
      = (Inr \<lparr>status = 400, json = Inr (errorPayload ''API URL is required'')\<rparr>, [])"
    by (simp add: GET_of_try)
qed

lemma handleSearch_begin_fetch:
  "Fetch u \<in> set (snd (handleSearch_begin flag s)) \<Longrightarrow>
   \<exists>p e. apiPath s = Inr p \<and> encodeURIComponent p = Inr e \<and> u = js ''/api/artwork?path='' @ e"
  by (auto simp: handleSearch_begin_def Let_def catchFinally_def split: sum.splits if_splits)

lemma apiPath_nonempty: "apiPath s = Inr p \<Longrightarrow> p \<noteq> []"
  by (auto simp: apiPath_def encoded_def js_def split: if_splits sum.splits)

lemma handleSearch_resume_apiUrl_required:
  "fst (handleSearch_resume
          (Inr \<lparr>status = 400, json = Inr (errorPayload ''API URL is required'')\<rparr>) t)
     = t\<lparr>error := Some (Text (js ''API URL is required'')), loading := False\<rparr>"
  by (simp add: handleSearch_resume_def response_json_def nullBodyStatus_def ok_def
      errorOrDetail_def errorPayload_def truthyOpt_def catchFinally_def errorMessage_def
      js_nonempty)

text \<open>
  Claim C1 says that the request of every search carries the base URL and the path, so
  that the forwarder never answers it with the 400 of a missing \<^verbatim>\<open>apiUrl\<close>. The code
  does the opposite. The URL that \<^verbatim>\<open>handleSearch\<close> fetches has the single parameter
  \<^verbatim>\<open>path\<close>: whatever the state and the page's origin (an origin has no \<^verbatim>\<open>?\<close> and no
  \<^verbatim>\<open>#\<close>), the forwarder finds no \<^verbatim>\<open>apiUrl\<close>, answers 400 with
  \<^verbatim>\<open>{error: 'API URL is required'}\<close> without an outbound request, and the search ends
  with that message as its error and without results.
\<close>

theorem dispatched_request_lacks_apiUrl:
  assumes sent: "Fetch u \<in> set (snd (handleSearch_begin flag s))"
    and origin: "0x3F \<notin> set origin" "0x23 \<notin> set origin"
  shows "searchParams_get (searchParams (origin @ u)) (js ''apiUrl'') = None
    \<and> GET upstream \<lparr>url = origin @ u\<rparr>
        = (Inr \<lparr>status = 400, json = Inr (errorPayload ''API URL is required'')\<rparr>, [])
    \<and> error (fst (handleSearch flag (viaProxy origin upstream) s))
        = Some (Text (js ''API URL is required''))
    \<and> results (fst (handleSearch flag (viaProxy origin upstream) s)) = JNull"
proof -
  from handleSearch_begin_fetch [OF sent] obtain p e
    where path: "apiPath s = Inr p" and enc: "encodeURIComponent p = Inr e"
      and u: "u = js ''/api/artwork?path='' @ e"
    by blast
  from path obtain c cs where "p = c # cs"
    using apiPath_nonempty by (cases p) auto
  with enc have nonempty: "e \<noteq> []"
    using encodeURIComponent_nonempty by blast
  from enc have chars: "\<forall>c \<in> set e. uriUnescaped c \<or> c = 0x25"
    using encodeURIComponent_chars by blast
  note answered = GET_dispatched(1) [OF origin chars nonempty]
    GET_dispatched(2) [OF origin chars nonempty, where upstream = upstream]
  have begun: "handleSearch_begin flag s =
     (s\<lparr>results := JNull, loading := True, error := None,
        debugUrl := stripTrailingSlash (apiUrl s) @ p\<rparr>,
      (if flag then [PushState (updateUrl s)] else []) @ [Fetch u])"
    unfolding u using path enc by (rule handleSearch_begin_valid)
  then have "fetches (snd (handleSearch_begin flag s)) = [u]"
    by (simp add: fetches_append)
  with begun have "fst (handleSearch flag (viaProxy origin upstream) s)
      = fst (handleSearch_resume (viaProxy origin upstream u)
          (s\<lparr>results := JNull, loading := True, error := None,
             debugUrl := stripTrailingSlash (apiUrl s) @ p\<rparr>))"
    by (simp add: handleSearch_unfold)
  moreover have "viaProxy origin upstream u
      = Inr \<lparr>status = 400, json = Inr (errorPayload ''API URL is required'')\<rparr>"
    using answered(2) by (simp add: viaProxy_def u)
  ultimately have "fst (handleSearch flag (viaProxy origin upstream) s)
      = s\<lparr>results := JNull, loading := True, error := None,
           debugUrl := stripTrailingSlash (apiUrl s) @ p\<rparr>
         \<lparr>error := Some (Text (js ''API URL is required'')), loading := False\<rparr>"
    by (simp add: handleSearch_resume_apiUrl_required)
  with answered show ?thesis
    by (simp add: u)
qed

theorem dispatched_request_lacks_apiUrl_witness:
  "Fetch (js ''/api/artwork?path=%2Fai%2Fv1%2Fartworks%2Fsearch%3Fq%3Dcats'')
     \<in> set (snd (handleSearch_begin True catsSearch))
   \<and> 0x3F \<notin> set (js ''http://localhost:3000'') \<and> 0x23 \<notin> set (js ''http://localhost:3000'')
   \<and> GET createdUpstream pathOnlyRequest
       = (Inr \<lparr>status = 400, json = Inr (errorPayload ''API URL is required'')\<rparr>, [])
   \<and> error (fst (handleSearch True (viaProxy (js ''http://localhost:3000'') createdUpstream) catsSearch))
       = Some (Text (js ''API URL is required''))
   \<and> results (fst (handleSearch True (viaProxy (js ''http://localhost:3000'') createdUpstream) catsSearch))
       = JNull"
proof -
  let ?u = "js ''/api/artwork?path=%2Fai%2Fv1%2Fartworks%2Fsearch%3Fq%3Dcats''"
  let ?origin = "js ''http://localhost:3000''"
  have sent: "Fetch ?u \<in> set (snd (handleSearch_begin True catsSearch))"
    by (simp add: handleSearch_begin_cats catsSearch_def initialState_def)
  have origin: "0x3F \<notin> set ?origin" "0x23 \<notin> set ?origin"
    by (simp_all add: js_def)
  have request: "\<lparr>url = ?origin @ ?u\<rparr> = pathOnlyRequest"
    by (simp add: pathOnlyRequest_def js_def)
  from dispatched_request_lacks_apiUrl [OF sent origin, of createdUpstream] sent origin request
  show ?thesis
    by simp
qed

end
